theory Spec2Isabelle
  imports Complex_Main
begin

section \<open>Conventions\<close>

text \<open>
  The scalar type \<^verbatim>\<open>ScalarT\<close> (a C++ double) is idealised as \<^typ>\<open>real\<close>: comparisons,
  sums, products and quotients are exact.  A one-column distributed vector is the list of
  its local entries.  Everything the solver obtains from collaborators outside the solver,
  thermal and subgrid sources modelled here (the assembly manager, the Krylov solver, the
  preconditioner, the MPI communicator) enters the model as an explicit parameter.
\<close>

type_synonym vec = "real list"

text \<open>\<^verbatim>\<open>x->update(a, A, b)\<close> of a multivector: \<open>x := a*A + b*x\<close>, entry by entry.\<close>

definition vec_update :: "real \<Rightarrow> vec \<Rightarrow> real \<Rightarrow> vec \<Rightarrow> vec" where
  "vec_update a A b x = map2 (\<lambda>xi Ai. a * Ai + b * xi) x A"

section \<open>The nonlinear solver (solverInterface.cpp, solver::nonlinearSolver)\<close>

text \<open>The four vectors the solver works on.\<close>

record solver_vectors =
  u_vec :: vec
  u_dot_vec :: vec
  phi_vec :: vec
  phi_dot_vec :: vec

text \<open>
  What one call of \<^verbatim>\<open>assembler->assembleJacRes\<close> is told besides the vectors: the
  time-integration weights, the current time and the three flags.
\<close>

record assembly_args =
  arg_alpha :: real
  arg_beta :: real
  arg_current_time :: real
  arg_useadjoint :: bool
  arg_store_adjPrev :: bool
  arg_is_final_time :: bool

text \<open>
  The members of \<^verbatim>\<open>solver\<close> that \<^verbatim>\<open>nonlinearSolver\<close> reads, together with its
  collaborators: \<open>setDirichlet\<close> imposes the strong Dirichlet values on \<open>u\<close>,
  \<open>residual_normInf\<close> is the infinity norm of the assembled and exported residual, and
  \<open>linearSolver\<close> is the imported Newton increment \<open>du\<close> of the linear solve.
\<close>

record solver =
  NLtol :: real
  MaxNLiter :: int
  useadjoint :: bool
  usestrongDBCs :: bool
  verbosity :: int
  comm_rank :: nat
  setDirichlet :: "vec \<Rightarrow> vec"
  residual_normInf :: "assembly_args \<Rightarrow> solver_vectors \<Rightarrow> real"
  linearSolver :: "assembly_args \<Rightarrow> solver_vectors \<Rightarrow> vec"

text \<open>
  The local variables of the Newton loop, the vectors it updates in place, and the member
  \<^verbatim>\<open>store_adjPrev\<close>, which every pass sets and which stays as the last pass left it.
\<close>

record nl_state =
  NLiter :: int
  NLerr_first :: real
  NLerr_scaled :: real
  NLerr :: real
  vecs :: solver_vectors
  store_adjPrev :: bool

text \<open>The loop condition \<^verbatim>\<open>NLerr_scaled[0]>NLtol && NLiter<maxiter\<close>.\<close>

definition nl_continue :: "solver \<Rightarrow> int \<Rightarrow> nl_state \<Rightarrow> bool" where
  "nl_continue S maxiter s \<longleftrightarrow> NLerr_scaled s > NLtol S \<and> NLiter s < maxiter"

text \<open>The update step taken when the scaled residual is above the tolerance.\<close>

definition newton_update :: "solver \<Rightarrow> real \<Rightarrow> vec \<Rightarrow> solver_vectors \<Rightarrow> solver_vectors" where
  "newton_update S alpha du v =
     (if useadjoint S
      then v\<lparr>phi_vec := vec_update 1 du 1 (phi_vec v),
             phi_dot_vec := vec_update alpha du 1 (phi_dot_vec v)\<rparr>
      else v\<lparr>u_vec := vec_update 1 du 1 (u_vec v),
             u_dot_vec := vec_update alpha du 1 (u_dot_vec v)\<rparr>)"

text \<open>One pass through the body of the while loop.\<close>

definition nl_body :: "solver \<Rightarrow> assembly_args \<Rightarrow> nl_state \<Rightarrow> nl_state" where
  "nl_body S a s =
     (let args = a\<lparr>arg_store_adjPrev := (useadjoint S \<and> NLiter s = 1)\<rparr>;
          r = residual_normInf S args (vecs s);
          s1 = (if NLiter s = 0
                then s\<lparr>NLerr_first := r,
                       NLerr_scaled := (if r > 1 / 10 ^ 14 then 1 else 0)\<rparr>
                else s\<lparr>NLerr := r, NLerr_scaled := r / NLerr_first s\<rparr>);
          s2 = (if NLerr_scaled s1 > NLtol S
                then s1\<lparr>vecs := newton_update S (arg_alpha a)
                                   (linearSolver S args (vecs s1)) (vecs s1)\<rparr>
                else s1)
      in s2\<lparr>NLiter := NLiter s2 + 1, store_adjPrev := (useadjoint S \<and> NLiter s = 1)\<rparr>)"

function nl_loop :: "solver \<Rightarrow> assembly_args \<Rightarrow> int \<Rightarrow> nl_state \<Rightarrow> nl_state" where
  "nl_loop S a maxiter s =
     (if nl_continue S maxiter s then nl_loop S a maxiter (nl_body S a s) else s)"
  by pat_completeness auto
termination
  by (relation "measure (\<lambda>(S, a, maxiter, s). nat (maxiter - NLiter s))")
     (auto simp: nl_continue_def nl_body_def Let_def)

declare nl_loop.simps [simp del]

text \<open>The iteration cap: \<^verbatim>\<open>MaxNLiter\<close>, replaced by 2 in adjoint mode.\<close>

definition maxiter_of :: "solver \<Rightarrow> int" where
  "maxiter_of S = (if useadjoint S then 2 else MaxNLiter S)"

text \<open>
  The state on entry to the loop, after the optional strong Dirichlet pass; the argument
  record carries the value of \<^verbatim>\<open>store_adjPrev\<close> at the time of the call.
\<close>

definition nl_init :: "solver \<Rightarrow> assembly_args \<Rightarrow> solver_vectors \<Rightarrow> nl_state" where
  "nl_init S a v =
     \<lparr>NLiter = 0, NLerr_first = 10 * NLtol S, NLerr_scaled = 10 * NLtol S,
      NLerr = 10 * NLtol S,
      vecs = (if usestrongDBCs S then v\<lparr>u_vec := setDirichlet S (u_vec v)\<rparr> else v),
      store_adjPrev = arg_store_adjPrev a\<rparr>"

text \<open>
  Whether the closing block prints \<^verbatim>\<open>SOLVER FAILED TO CONVERGE\<close>: only on rank 0, only
  outside adjoint mode and only with verbosity above 1.
\<close>

definition failure_reported :: "solver \<Rightarrow> nl_state \<Rightarrow> bool" where
  "failure_reported S s \<longleftrightarrow>
     comm_rank S = 0 \<and> \<not> useadjoint S \<and>
     (NLiter s > MaxNLiter S \<or> NLerr_scaled s > NLtol S) \<and> verbosity S > 1"

definition nonlinearSolver :: "solver \<Rightarrow> assembly_args \<Rightarrow> solver_vectors \<Rightarrow> nl_state" where
  "nonlinearSolver S a v = nl_loop S a (maxiter_of S) (nl_init S a v)"

text \<open>
  The state after \<open>k\<close> passes through the loop body, and the residual norm the first pass
  measures (\<^verbatim>\<open>NLerr_first\<close>, the norm of \<open>r\<^sub>0\<close>).
\<close>

definition newton_iterate :: "solver \<Rightarrow> assembly_args \<Rightarrow> solver_vectors \<Rightarrow> nat \<Rightarrow> nl_state" where
  "newton_iterate S a v k = (nl_body S a ^^ k) (nl_init S a v)"


text \<open>A concrete adjoint run whose first residual vanishes, used to exercise the results.\<close>

definition example_args :: assembly_args where
  "example_args = \<lparr>arg_alpha = 1, arg_beta = 1, arg_current_time = 0,
     arg_useadjoint = True, arg_store_adjPrev = False, arg_is_final_time = True\<rparr>"

definition example_vectors :: solver_vectors where
  "example_vectors = \<lparr>u_vec = [1, 2], u_dot_vec = [0, 0], phi_vec = [0, 0],
     phi_dot_vec = [0, 0]\<rparr>"

definition example_adjoint_solver :: solver where
  "example_adjoint_solver = \<lparr>NLtol = 1 / 10 ^ 6, MaxNLiter = 10, useadjoint = True,
     usestrongDBCs = False, verbosity = 0, comm_rank = 0, setDirichlet = (\<lambda>x. x),
     residual_normInf = (\<lambda>_ _. 0), linearSolver = (\<lambda>_ _. [0, 0])\<rparr>"




section \<open>The domain-decomposition preconditioner set-up (solver::linearSolver, Epetra stack)\<close>

text \<open>
  \<^verbatim>\<open>linsolver.ConstructPreconditioner(condest)\<close> is a parameter: it maps the current
  thresholds \<open>(AZ_athresh, AZ_rthresh)\<close> to the condition estimate it reports.
\<close>

definition bad_condest :: "real \<Rightarrow> bool" where
  "bad_condest condest \<longleftrightarrow> condest > 10 ^ 13 \<or> condest < 1"

text \<open>The four threshold pairs of the nested re-setups, in the order of the source.\<close>

definition resetup_thresholds :: "(real \<times> real) list" where
  "resetup_thresholds = [(1 / 10 ^ 5, 0), (1 / 10 ^ 5, 1 / 100), (1 / 100, 0), (1 / 100, 1 / 100)]"

record precond_result =
  resetups :: "(real \<times> real) list"
  final_condest :: real
  sad_preconditioner :: bool

text \<open>
  The \<^verbatim>\<open>useDomDecomp\<close> branch: the first construction with the thresholds in force, then
  the nested re-setups; \<open>resetups\<close> lists the thresholds of the re-setups performed and
  \<open>sad_preconditioner\<close> tells whether \<^verbatim>\<open>SAD PRECONDITIONER\<close> was printed.
\<close>

definition domDecompPreconditioner ::
  "(real \<times> real \<Rightarrow> real) \<Rightarrow> real \<times> real \<Rightarrow> precond_result" where
  "domDecompPreconditioner ConstructPreconditioner thresh0 =
     (let c0 = ConstructPreconditioner thresh0 in
      if bad_condest c0 then
        (let c1 = ConstructPreconditioner (1 / 10 ^ 5, 0) in
         if bad_condest c1 then
           (let c2 = ConstructPreconditioner (1 / 10 ^ 5, 1 / 100) in
            if bad_condest c2 then
              (let c3 = ConstructPreconditioner (1 / 100, 0) in
               if bad_condest c3 then
                 (let c4 = ConstructPreconditioner (1 / 100, 1 / 100) in
                  \<lparr>resetups = [(1 / 10 ^ 5, 0), (1 / 10 ^ 5, 1 / 100), (1 / 100, 0),
                                (1 / 100, 1 / 100)],
                   final_condest = c4, sad_preconditioner = (c4 > 10 ^ 13)\<rparr>)
               else \<lparr>resetups = [(1 / 10 ^ 5, 0), (1 / 10 ^ 5, 1 / 100), (1 / 100, 0)],
                     final_condest = c3, sad_preconditioner = False\<rparr>)
            else \<lparr>resetups = [(1 / 10 ^ 5, 0), (1 / 10 ^ 5, 1 / 100)],
                  final_condest = c2, sad_preconditioner = False\<rparr>)
         else \<lparr>resetups = [(1 / 10 ^ 5, 0)], final_condest = c1,
               sad_preconditioner = False\<rparr>)
      else \<lparr>resetups = [], final_condest = c0, sad_preconditioner = False\<rparr>)"

text \<open>A forward run that cannot converge: the residual norm is always 1 and one iteration is allowed.\<close>

definition example_stalled_solver :: solver where
  "example_stalled_solver = \<lparr>NLtol = 1 / 10 ^ 6, MaxNLiter = 1, useadjoint = False,
     usestrongDBCs = False, verbosity = 0, comm_rank = 0, setDirichlet = (\<lambda>x. x),
     residual_normInf = (\<lambda>_ _. 1), linearSolver = (\<lambda>_ _. [0, 0])\<rparr>"

text \<open>A preconditioner whose estimate is acceptable only with the thresholds \<open>(1e-5, 0.01)\<close>.\<close>

definition example_condest :: "real \<times> real \<Rightarrow> real" where
  "example_condest th = (if th = (1 / 10 ^ 5, 1 / 100) then 50 else 10 ^ 14)"

text \<open>
  A preconditioner whose first estimate is below 1 and acceptable afterwards, and one whose
  estimate is never acceptable.
\<close>

definition example_small_condest :: "real \<times> real \<Rightarrow> real" where
  "example_small_condest th = (if th = (0, 0) then 1 / 2 else 50)"

definition example_hopeless_condest :: "real \<times> real \<Rightarrow> real" where
  "example_hopeless_condest th = 10 ^ 14"

section \<open>The transient solver (solverInterface.cpp, solver::transientSolver)\<close>

text \<open>
  \<^verbatim>\<open>for (i = 0; i < n; i++) x(i) = f(i)\<close> on a local view: the entries below \<open>n\<close> are
  overwritten one after the other (a write beyond the view is not modelled: the list is
  left as it is there).
\<close>

definition fill_entries :: "nat \<Rightarrow> (nat \<Rightarrow> real) \<Rightarrow> vec \<Rightarrow> vec" where
  "fill_entries n f x = fold (\<lambda>i y. y[i := f i]) [0..<n] x"

text \<open>\<^verbatim>\<open>Teuchos::reduceAll\<close> over the ranks' values, one list entry per rank.\<close>

fun reduceAll_MIN :: "real list \<Rightarrow> real" where
  "reduceAll_MIN (x # xs) = fold min xs x"
| "reduceAll_MIN [] = 0"

fun reduceAll_MAX :: "real list \<Rightarrow> real" where
  "reduceAll_MAX (x # xs) = fold max xs x"
| "reduceAll_MAX [] = 0"


text \<open>
  The load-balancing block at the head of every time step.  Both reductions write into
  \<^verbatim>\<open>gmin\<close>; \<^verbatim>\<open>gmax\<close> keeps its initial value \<^verbatim>\<open>0.0\<close>, and \<^verbatim>\<open>gmax/gmin\<close> is what is
  printed.  The argument lists \<^verbatim>\<open>my_cost\<close> of every rank.
\<close>

definition load_balancing_factor :: "real list \<Rightarrow> real" where
  "load_balancing_factor my_costs =
     (let gmin0 = (0::real);
          gmin1 = reduceAll_MIN my_costs;
          gmax = (0::real);
          gmin2 = reduceAll_MAX my_costs
      in gmax / gmin2)"

text \<open>
  The members of \<^verbatim>\<open>solver\<close> read by the time loop, and its collaborators;
  \<open>store_adjPrev0\<close> is the value the member \<^verbatim>\<open>store_adjPrev\<close> has when the time loop is
  entered.  The six-argument \<^verbatim>\<open>computeSensitivities\<close> makes two assembly passes: the one
  for the active parameters, around which it clears the member \<^verbatim>\<open>useadjoint\<close>, and the one
  for the discretized parameters, made after the member has been restored; the collaborator
  is given the arguments of the first pass, then those of the second.
\<close>

record transient_config =
  finaltime :: real
  numsteps :: int
  time_order :: int
  solvetimes0 :: real
  compute_objective :: bool
  num_local :: nat
  store_adjPrev0 :: bool
  multiscale_costs :: "nat \<Rightarrow> real list"
  computeObjective :: "vec \<Rightarrow> real \<Rightarrow> nat \<Rightarrow> real"
  computeSensitivities ::
    "assembly_args \<Rightarrow> assembly_args \<Rightarrow> solver_vectors \<Rightarrow> real list \<Rightarrow> real list"

text \<open>
  The state of the time loop: the members \<^verbatim>\<open>current_time\<close>, \<^verbatim>\<open>is_final_time\<close> and
  \<^verbatim>\<open>store_adjPrev\<close>, the four vectors, the output matrix \<^verbatim>\<open>SolMat\<close> (a list of columns),
  the objective, the gradient and the load-balancing factors printed so far.
\<close>

record transient_state =
  current_time :: real
  is_final_time :: bool
  ts_store_adjPrev :: bool
  tvecs :: solver_vectors
  SolMat :: "vec list"
  obj :: real
  gradient :: "real list"
  lb_printed :: "real list"

definition deltat_of :: "transient_config \<Rightarrow> real" where
  "deltat_of T = finaltime T / real_of_int (numsteps T)"

definition alpha_of :: "transient_config \<Rightarrow> real" where
  "alpha_of T =
     (if time_order T = 1 then 1 / deltat_of T
      else if time_order T = 2 then 3 / 2 / deltat_of T
      else 0)"

text \<open>
  The forward branch before the nonlinear solve: \<open>u_dot\<close> is seeded from \<open>u\<close> and the
  columns \<open>timeiter\<close>, \<open>timeiter - 1\<close> of \<^verbatim>\<open>SolMat\<close>.
\<close>

definition forward_seed ::
  "transient_config \<Rightarrow> nat \<Rightarrow> vec list \<Rightarrow> solver_vectors \<Rightarrow> solver_vectors" where
  "forward_seed T timeiter solmat v =
     (if time_order T = 1 \<or> timeiter = 0
      then v\<lparr>u_dot_vec := fill_entries (num_local T)
                 (\<lambda>i. alpha_of T * u_vec v ! i - alpha_of T * (solmat ! timeiter) ! i)
                 (u_dot_vec v)\<rparr>
      else if time_order T = 2
      then v\<lparr>u_dot_vec := fill_entries (num_local T)
                 (\<lambda>i. alpha_of T * u_vec v ! i
                       - alpha_of T * 4 / 3 * (solmat ! timeiter) ! i
                       + alpha_of T * 1 / 3 * (solmat ! (timeiter - 1)) ! i)
                 (u_dot_vec v)\<rparr>
      else v)"

text \<open>
  The adjoint branch before the nonlinear solve: \<open>u\<close> is loaded from column
  \<open>numivec - timeiter - 1\<close> of the forward trajectory \<^verbatim>\<open>L_soln\<close>; \<open>u_dot\<close> is rebuilt and
  \<open>phi_dot\<close> zeroed only under \<^verbatim>\<open>time_order == 1\<close> (the second-order branch is commented
  out in the source).
\<close>

definition adjoint_seed ::
  "transient_config \<Rightarrow> nat \<Rightarrow> vec list \<Rightarrow> solver_vectors \<Rightarrow> solver_vectors" where
  "adjoint_seed T timeiter L_soln v =
     (let numivec = length L_soln;
          v1 = v\<lparr>u_vec := fill_entries (num_local T)
                    (\<lambda>i. (L_soln ! (numivec - timeiter - 1)) ! i) (u_vec v)\<rparr>
      in if time_order T = 1
         then v1\<lparr>u_dot_vec := fill_entries (num_local T)
                    (\<lambda>i. alpha_of T * (L_soln ! (numivec - timeiter - 1)) ! i
                          - alpha_of T * (L_soln ! (numivec - timeiter - 2)) ! i)
                    (u_dot_vec v1),
                 phi_dot_vec := map (\<lambda>_. 0) (phi_dot_vec v1)\<rparr>
         else v1)"

text \<open>
  The arguments the nonlinear solver hands to the assembler during this step, with the
  members as they are when the solver is called.
\<close>

definition step_args :: "transient_config \<Rightarrow> solver \<Rightarrow> transient_state \<Rightarrow> assembly_args" where
  "step_args T S s =
     \<lparr>arg_alpha = alpha_of T, arg_beta = 1,
      arg_current_time = (if useadjoint S then current_time s else current_time s + deltat_of T),
      arg_useadjoint = useadjoint S, arg_store_adjPrev = ts_store_adjPrev s,
      arg_is_final_time = is_final_time s\<rparr>"

definition step_seed ::
  "transient_config \<Rightarrow> solver \<Rightarrow> vec list \<Rightarrow> nat \<Rightarrow> transient_state \<Rightarrow> solver_vectors" where
  "step_seed T S L_soln timeiter s =
     (if useadjoint S then adjoint_seed T timeiter L_soln (tvecs s)
      else forward_seed T timeiter (SolMat s) (tvecs s))"

text \<open>
  The members as the six-argument \<^verbatim>\<open>computeSensitivities\<close> finds them after the solve:
  \<^verbatim>\<open>store_adjPrev\<close> is what the last Newton pass left, the time and the final-time flag are
  still those of the solve.  Its pass for the active parameters runs with \<^verbatim>\<open>useadjoint\<close>
  cleared.
\<close>

definition sens_member_args :: "assembly_args \<Rightarrow> nl_state \<Rightarrow> assembly_args" where
  "sens_member_args args r = args\<lparr>arg_store_adjPrev := store_adjPrev r\<rparr>"

definition sens_active_args :: "assembly_args \<Rightarrow> nl_state \<Rightarrow> assembly_args" where
  "sens_active_args args r = (sens_member_args args r)\<lparr>arg_useadjoint := False\<rparr>"

text \<open>
  One pass through the body of the time loop.  (\<^verbatim>\<open>remesh\<close> moves mesh nodes only and
  \<^verbatim>\<open>sacadoizeParams\<close> re-seeds the parameters; neither touches the state modelled here.)
\<close>

definition transient_step ::
  "transient_config \<Rightarrow> solver \<Rightarrow> vec list \<Rightarrow> nat \<Rightarrow> transient_state \<Rightarrow> transient_state" where
  "transient_step T S L_soln timeiter s =
     (let args = step_args T S s;
          r = nonlinearSolver S args (step_seed T S L_soln timeiter s);
          v = vecs r;
          stored = (if useadjoint S then phi_vec v else u_vec v);
          solmat = (SolMat s)[timeiter + 1 :=
                      fill_entries (num_local T) (\<lambda>i. stored ! i) (SolMat s ! (timeiter + 1))]
      in \<lparr>current_time = (if useadjoint S then current_time s - deltat_of T
                          else current_time s + deltat_of T),
          is_final_time = (if useadjoint S then False else is_final_time s),
          ts_store_adjPrev = store_adjPrev r,
          tvecs = v,
          SolMat = solmat,
          obj = (if \<not> useadjoint S \<and> compute_objective T
                 then obj s + computeObjective T (u_vec v) (arg_current_time args) timeiter
                 else obj s),
          gradient = (if useadjoint S
                      then computeSensitivities T (sens_active_args args r)
                             (sens_member_args args r) v (gradient s)
                      else gradient s),
          lb_printed = (if comm_rank S = 0 \<and> verbosity S > 0
                        then lb_printed s @ [load_balancing_factor (multiscale_costs T timeiter)]
                        else lb_printed s)\<rparr>)"

text \<open>The state on entry to the time loop.\<close>

definition transient_init ::
  "transient_config \<Rightarrow> solver \<Rightarrow> vec \<Rightarrow> vec list \<Rightarrow> real list \<Rightarrow> transient_state" where
  "transient_init T S initial solmat grad =
     \<lparr>current_time = (if useadjoint S then finaltime T else solvetimes0 T),
      is_final_time = useadjoint S,
      ts_store_adjPrev = store_adjPrev0 T,
      tvecs = \<lparr>u_vec = initial, u_dot_vec = replicate (num_local T) 0,
               phi_vec = replicate (num_local T) 0, phi_dot_vec = replicate (num_local T) 0\<rparr>,
      SolMat = solmat, obj = 0, gradient = grad, lb_printed = []\<rparr>"

definition transientSolver ::
  "transient_config \<Rightarrow> solver \<Rightarrow> vec \<Rightarrow> vec list \<Rightarrow> vec list \<Rightarrow> real list \<Rightarrow> transient_state" where
  "transientSolver T S initial L_soln solmat grad =
     fold (transient_step T S L_soln) [0..<nat (numsteps T)] (transient_init T S initial solmat grad)"

text \<open>The state of the time loop after its first \<open>k\<close> passes.\<close>

definition transient_run ::
  "transient_config \<Rightarrow> solver \<Rightarrow> vec \<Rightarrow> vec list \<Rightarrow> vec list \<Rightarrow> real list \<Rightarrow> nat
     \<Rightarrow> transient_state" where
  "transient_run T S initial L_soln solmat grad k =
     fold (transient_step T S L_soln) [0..<k] (transient_init T S initial solmat grad)"

text \<open>A two-step run with \<open>\<Delta>t = 1/2\<close>, for both time orders.\<close>

definition example_transient :: "int \<Rightarrow> transient_config" where
  "example_transient order = \<lparr>finaltime = 1, numsteps = 2, time_order = order,
     solvetimes0 = 0, compute_objective = False, num_local = 1, store_adjPrev0 = False,
     multiscale_costs = (\<lambda>_. [2, 4]), computeObjective = (\<lambda>_ _ _. 0),
     computeSensitivities = (\<lambda>_ _ _ g. g)\<rparr>"

text \<open>
  A forward solver that takes exactly one Newton step per call, adding 1 to the unknown:
  the residual norm is always 1 and one iteration is allowed.
\<close>

definition example_stepping_solver :: solver where
  "example_stepping_solver = \<lparr>NLtol = 1 / 10 ^ 6, MaxNLiter = 1, useadjoint = False,
     usestrongDBCs = False, verbosity = 0, comm_rank = 0, setDirichlet = (\<lambda>x. x),
     residual_normInf = (\<lambda>_ _. 1), linearSolver = (\<lambda>_ _. [1])\<rparr>"

text \<open>An adjoint run over a stored three-column forward trajectory.\<close>

definition example_trajectory :: "vec list" where
  "example_trajectory = [[1], [2], [4]]"

definition example_adjoint_state :: transient_state where
  "example_adjoint_state = transient_init (example_transient 2) example_adjoint_solver
     [0] [[0], [0], [0]] []"

section \<open>The subgrid model (SubGridFEM2): cost estimate and terminal-time reset\<close>

text \<open>
  \<^verbatim>\<open>cost_estimate = 1.0*currcells[0].size()*(currcells[0][0]->numElem)*time_steps\<close>, set
  when the first macro element is added: the number of subgrid cells, times the elements
  per cell, times the number of sub time steps.
\<close>

definition cost_estimate :: "nat \<Rightarrow> int \<Rightarrow> int \<Rightarrow> real" where
  "cost_estimate num_cells numElem time_steps =
     1 * real num_cells * real_of_int numElem * real_of_int time_steps"

text \<open>
  \<^verbatim>\<open>subgridSolver\<close> recomputes its own flag from the time it is given, and
  \<^verbatim>\<open>subGridNonlinearSolver\<close> zeroes a cell's \<^verbatim>\<open>adjPrev\<close> in adjoint mode under that flag.
\<close>

definition subgrid_is_final_time :: "real \<Rightarrow> real \<Rightarrow> bool" where
  "subgrid_is_final_time time final_time \<longleftrightarrow> \<bar>time - final_time\<bar> < 1 / 10 ^ 12"

definition reset_adjPrev :: "bool \<Rightarrow> bool \<Rightarrow> real list list \<Rightarrow> real list list" where
  "reset_adjPrev isAdjoint is_final adjPrev =
     (if isAdjoint \<and> is_final then map (map (\<lambda>_. 0)) adjPrev else adjPrev)"

section \<open>The thermal physics module (class thermal)\<close>

text \<open>
  A two-dimensional AD view such as \<^verbatim>\<open>wkset->res\<close> is a function of its two indices;
  only the value component of the AD scalars is modelled.  \<^verbatim>\<open>res(e,r) += c\<close>:
\<close>

type_synonym view2 = "nat \<times> nat \<Rightarrow> real"

definition add_to :: "view2 \<Rightarrow> nat \<Rightarrow> nat \<Rightarrow> real \<Rightarrow> view2" where
  "add_to res e r c = res((e, r) := res (e, r) + c)"

text \<open>
  The members of \<^verbatim>\<open>thermal\<close>.  The variable numbers are C++ ints (\<open>-1\<close> marks an absent
  velocity component), so the views indexed by them take an int there.
\<close>

record thermal =
  spaceDim :: int
  e_num :: int
  ux_num :: int
  uy_num :: int
  uz_num :: int
  have_nsvel :: bool
  formparam :: real

text \<open>\<^verbatim>\<open>setVars\<close>: one pass over the variable names, then the velocity test.\<close>

definition setVars :: "string list \<Rightarrow> thermal \<Rightarrow> thermal" where
  "setVars varlist th =
     (let th0 = th\<lparr>ux_num := - 1, uy_num := - 1, uz_num := - 1\<rparr>;
          th1 = fold (\<lambda>i t.
                  (let t1 = (if varlist ! i = ''e'' then t\<lparr>e_num := int i\<rparr> else t);
                       t2 = (if varlist ! i = ''ux'' then t1\<lparr>ux_num := int i\<rparr> else t1);
                       t3 = (if varlist ! i = ''uy'' then t2\<lparr>uy_num := int i\<rparr> else t2)
                   in if varlist ! i = ''uz'' then t3\<lparr>uz_num := int i\<rparr> else t3))
                [0..<length varlist] th0
      in if ux_num th1 \<ge> 0 then th1\<lparr>have_nsvel := True\<rparr> else th1)"

text \<open>
  The part of the workset the module reads and writes, with the loop bounds taken from
  the view extents, and the coefficient fields returned by the function manager.
\<close>

record workset =
  wk_res :: view2
  wk_adjrhs :: view2
  wk_res_dim0 :: nat
  wk_offsets :: "int \<Rightarrow> nat \<Rightarrow> nat"
  wk_local_soln :: "nat \<Rightarrow> int \<Rightarrow> nat \<Rightarrow> nat \<Rightarrow> real"
  wk_local_soln_dot :: "nat \<Rightarrow> int \<Rightarrow> nat \<Rightarrow> nat \<Rightarrow> real"
  wk_local_soln_grad :: "nat \<Rightarrow> int \<Rightarrow> nat \<Rightarrow> nat \<Rightarrow> real"
  wk_numip :: nat
  wk_basis :: "nat \<Rightarrow> nat \<Rightarrow> nat \<Rightarrow> real"
  wk_basis_grad :: "nat \<Rightarrow> nat \<Rightarrow> nat \<Rightarrow> nat \<Rightarrow> real"
  wk_numBasis :: nat
  wk_isAdjoint :: bool
  wk_sideinfo :: "nat \<Rightarrow> int \<Rightarrow> nat \<Rightarrow> nat \<Rightarrow> int"
  wk_sideinfo_dim0 :: nat
  wk_currentside :: nat
  wk_local_soln_side :: "nat \<Rightarrow> int \<Rightarrow> nat \<Rightarrow> nat \<Rightarrow> real"
  wk_local_soln_grad_side :: "nat \<Rightarrow> int \<Rightarrow> nat \<Rightarrow> nat \<Rightarrow> real"
  wk_local_aux_side :: "nat \<Rightarrow> int \<Rightarrow> nat \<Rightarrow> real"
  wk_basis_side :: "nat \<Rightarrow> nat \<Rightarrow> nat \<Rightarrow> real"
  wk_basis_grad_side :: "nat \<Rightarrow> nat \<Rightarrow> nat \<Rightarrow> nat \<Rightarrow> real"
  wk_numBasis_side :: nat
  wk_numip_side :: nat
  wk_normals :: "nat \<Rightarrow> nat \<Rightarrow> nat \<Rightarrow> real"
  wk_h :: "nat \<Rightarrow> real"

record thermal_functions =
  source :: "nat \<Rightarrow> nat \<Rightarrow> real"
  diff :: "nat \<Rightarrow> nat \<Rightarrow> real"
  cp :: "nat \<Rightarrow> nat \<Rightarrow> real"
  rho :: "nat \<Rightarrow> nat \<Rightarrow> real"
  nsource :: "nat \<Rightarrow> nat \<Rightarrow> real"
  diff_side :: "nat \<Rightarrow> nat \<Rightarrow> real"
  robin_alpha :: "nat \<Rightarrow> nat \<Rightarrow> real"

text \<open>The loop nest over elements, quadrature points and basis functions.\<close>

definition element_loops ::
  "nat \<Rightarrow> nat \<Rightarrow> nat \<Rightarrow> (nat \<Rightarrow> nat \<Rightarrow> nat \<Rightarrow> view2 \<Rightarrow> view2) \<Rightarrow> view2 \<Rightarrow> view2" where
  "element_loops ne nk ni body res =
     fold (\<lambda>e. fold (\<lambda>k. fold (\<lambda>i. body e k i) [0..<ni]) [0..<nk]) [0..<ne] res"

text \<open>The loop bodies of \<^verbatim>\<open>volumeResidual\<close> for \<^verbatim>\<open>spaceDim\<close> 1, 2 and otherwise.\<close>

definition volume_body_1d ::
  "thermal \<Rightarrow> workset \<Rightarrow> thermal_functions \<Rightarrow> nat \<Rightarrow> nat \<Rightarrow> nat \<Rightarrow> view2 \<Rightarrow> view2" where
  "volume_body_1d th W F e k i res =
     (let resindex = wk_offsets W (e_num th) i;
          res1 = add_to res e resindex
            (rho F e k * cp F e k * wk_local_soln_dot W e (e_num th) k 0 * wk_basis W e i k +
             diff F e k * (wk_local_soln_grad W e (e_num th) k 0 * wk_basis_grad W e i k 0) -
             source F e k * wk_basis W e i k)
      in if have_nsvel th
         then add_to res1 e resindex
            (wk_local_soln W e (ux_num th) k 0 * wk_local_soln_grad W e (e_num th) k 0 *
               wk_basis W e i k)
         else res1)"

definition volume_body_2d ::
  "thermal \<Rightarrow> workset \<Rightarrow> thermal_functions \<Rightarrow> nat \<Rightarrow> nat \<Rightarrow> nat \<Rightarrow> view2 \<Rightarrow> view2" where
  "volume_body_2d th W F e k i res =
     (let resindex = wk_offsets W (e_num th) i;
          res1 = add_to res e resindex
            (rho F e k * cp F e k * wk_local_soln_dot W e (e_num th) k 0 * wk_basis W e i k +
             diff F e k * (wk_local_soln_grad W e (e_num th) k 0 * wk_basis_grad W e i k 0 +
                           wk_local_soln_grad W e (e_num th) k 1 * wk_basis_grad W e i k 1) -
             source F e k * wk_basis W e i k)
      in if have_nsvel th
         then add_to res1 e resindex
            (wk_local_soln W e (ux_num th) k 0 * wk_local_soln_grad W e (e_num th) k 0 *
               wk_basis W e i k +
             wk_local_soln W e (uy_num th) k 0 * wk_local_soln_grad W e (e_num th) k 1 *
               wk_basis W e i k)
         else res1)"

definition volume_body_3d ::
  "thermal \<Rightarrow> workset \<Rightarrow> thermal_functions \<Rightarrow> nat \<Rightarrow> nat \<Rightarrow> nat \<Rightarrow> view2 \<Rightarrow> view2" where
  "volume_body_3d th W F e k i res =
     (let resindex = wk_offsets W (e_num th) i;
          res1 = add_to res e resindex
            (rho F e k * cp F e k * wk_local_soln_dot W e (e_num th) k 0 * wk_basis W e i k +
             diff F e k * (wk_local_soln_grad W e (e_num th) k 0 * wk_basis_grad W e i k 0 +
                           wk_local_soln_grad W e (e_num th) k 1 * wk_basis_grad W e i k 1 +
                           wk_local_soln_grad W e (e_num th) k 2 * wk_basis_grad W e i k 2) -
             source F e k * wk_basis W e i k)
      in if have_nsvel th
         then add_to res1 e resindex
            (wk_local_soln_grad W e (ux_num th) k 0 * wk_basis_grad W e i k 0 +
             wk_local_soln_grad W e (uy_num th) k 1 * wk_basis_grad W e i k 1 +
             wk_local_soln_grad W e (uz_num th) k 0 * wk_basis_grad W e i k 2)
         else res1)"

definition volumeResidual :: "thermal \<Rightarrow> workset \<Rightarrow> thermal_functions \<Rightarrow> view2" where
  "volumeResidual th W F =
     (if spaceDim th = 1
      then element_loops (wk_res_dim0 W) (wk_numip W) (wk_numBasis W)
             (volume_body_1d th W F) (wk_res W)
      else if spaceDim th = 2
      then element_loops (wk_res_dim0 W) (wk_numip W) (wk_numBasis W)
             (volume_body_2d th W F) (wk_res W)
      else element_loops (wk_res_dim0 W) (wk_numip W) (wk_numBasis W)
             (volume_body_3d th W F) (wk_res W))"

text \<open>
  The weak form as the specification writes it, for comparison with the code:
  \<open>\<rho> c\<^sub>p \<partial>u/\<partial>t \<phi>\<^sub>i + \<kappa> \<nabla>u\<cdot>\<nabla>\<phi>\<^sub>i - f \<phi>\<^sub>i\<close>, plus \<open>v\<cdot>\<nabla>u \<phi>\<^sub>i\<close> when a velocity is coupled, in
  \<open>d\<close> space dimensions; the velocity components are the variables \<open>ux\<close>, \<open>uy\<close>, \<open>uz\<close>.
\<close>

definition velocity_num :: "thermal \<Rightarrow> nat \<Rightarrow> int" where
  "velocity_num th d = (if d = 0 then ux_num th else if d = 1 then uy_num th else uz_num th)"

definition spec_volume_term ::
  "thermal \<Rightarrow> workset \<Rightarrow> thermal_functions \<Rightarrow> nat \<Rightarrow> nat \<Rightarrow> nat \<Rightarrow> nat \<Rightarrow> real" where
  "spec_volume_term th W F d e k i =
     rho F e k * cp F e k * wk_local_soln_dot W e (e_num th) k 0 * wk_basis W e i k
     + diff F e k * (\<Sum>j<d. wk_local_soln_grad W e (e_num th) k j * wk_basis_grad W e i k j)
     - source F e k * wk_basis W e i k
     + (if have_nsvel th
        then (\<Sum>j<d. wk_local_soln W e (velocity_num th j) k 0 *
                     wk_local_soln_grad W e (e_num th) k j) * wk_basis W e i k
        else 0)"

text \<open>
  A three-dimensional element with one quadrature point and one basis function, coupled to
  a velocity \<open>(1, 0, 0)\<close>: here \<open>\<nabla>u = (1, 0, 0)\<close>, \<open>\<partial>ux/\<partial>x = 5\<close>, \<open>\<phi> = 1\<close> and
  \<open>\<nabla>\<phi> = (1, 1, 1)\<close>, with \<open>\<rho> = c\<^sub>p = \<kappa> = 1\<close>, \<open>f = 0\<close> and \<open>\<partial>u/\<partial>t = 0\<close>.  Its current side is a
  weak Dirichlet side facing a neighbour (marker \<open>-1\<close>) with normal \<open>(1, 0, 0)\<close>: there
  \<open>u = 3\<close>, \<open>\<lambda> = 7\<close>, \<open>\<nabla>u = (2, 0, 0)\<close>, \<open>\<phi> = 1\<close>, \<open>\<nabla>\<phi> = (4, 0, 0)\<close>, \<open>h = 5\<close>, \<open>g\<^sub>N = 2\<close>.
\<close>

definition example_thermal :: thermal where
  "example_thermal = setVars [''e'', ''ux'', ''uy'', ''uz'']
     \<lparr>spaceDim = 3, e_num = 0, ux_num = 0, uy_num = 0, uz_num = 0, have_nsvel = False,
      formparam = 1\<rparr>"

definition example_workset :: workset where
  "example_workset = \<lparr>wk_res = (\<lambda>_. 0), wk_adjrhs = (\<lambda>_. 0), wk_res_dim0 = 1,
     wk_offsets = (\<lambda>_ i. i),
     wk_local_soln = (\<lambda>e n k d. if n = 1 \<and> d = 0 then 1 else 0),
     wk_local_soln_dot = (\<lambda>e n k d. 0),
     wk_local_soln_grad = (\<lambda>e n k d. if n = 0 \<and> d = 0 then 1
                                        else if n = 1 \<and> d = 0 then 5 else 0),
     wk_numip = 1,
     wk_basis = (\<lambda>e i k. 1), wk_basis_grad = (\<lambda>e i k d. 1), wk_numBasis = 1,
     wk_isAdjoint = False,
     wk_sideinfo = (\<lambda>e n s j. if j = 0 then 1 else - 1), wk_sideinfo_dim0 = 1,
     wk_currentside = 0,
     wk_local_soln_side = (\<lambda>e n k d. 3),
     wk_local_soln_grad_side = (\<lambda>e n k d. if d = 0 then 2 else 0),
     wk_local_aux_side = (\<lambda>e n k. 7),
     wk_basis_side = (\<lambda>e i k. 1), wk_basis_grad_side = (\<lambda>e i k d. if d = 0 then 4 else 0),
     wk_numBasis_side = 1, wk_numip_side = 1,
     wk_normals = (\<lambda>e k d. if d = 0 then 1 else 0), wk_h = (\<lambda>e. 5)\<rparr>"

definition example_functions :: thermal_functions where
  "example_functions = \<lparr>source = (\<lambda>e k. 0), diff = (\<lambda>e k. 1), cp = (\<lambda>e k. 1),
     rho = (\<lambda>e k. 1), nsource = (\<lambda>e k. 2), diff_side = (\<lambda>e k. 1),
     robin_alpha = (\<lambda>e k. 0)\<rparr>"

text \<open>
  \<^verbatim>\<open>boundaryResidual\<close> updates the pair \<open>(res, adjrhs)\<close>.  On a Neumann side (kind 2) the
  body of the loops over side quadrature points and basis functions is:
\<close>

definition neumann_body ::
  "thermal \<Rightarrow> workset \<Rightarrow> thermal_functions \<Rightarrow> nat \<Rightarrow> nat \<Rightarrow> nat \<Rightarrow> view2 \<times> view2
     \<Rightarrow> view2 \<times> view2" where
  "neumann_body th W F e k i s =
     (let resindex = wk_offsets W (e_num th) i
      in (add_to (fst s) e resindex (- nsource F e k * wk_basis_side W e i k), snd s))"

text \<open>
  The mortar or Dirichlet value at a side quadrature point: the auxiliary variable when
  the neighbour marker is \<open>-1\<close>, and \<open>0.0\<close> otherwise.
\<close>

definition side_lambda :: "thermal \<Rightarrow> workset \<Rightarrow> nat \<Rightarrow> nat \<Rightarrow> real" where
  "side_lambda th W e k =
     (if wk_sideinfo W e (e_num th) (wk_currentside W) 1 = - 1
      then wk_local_aux_side W e (e_num th) k else 0)"

text \<open>On a weak Dirichlet side (kind 1), with \<open>sf\<close> already chosen:\<close>

definition dirichlet_body ::
  "thermal \<Rightarrow> workset \<Rightarrow> thermal_functions \<Rightarrow> real \<Rightarrow> nat \<Rightarrow> nat \<Rightarrow> nat \<Rightarrow> view2 \<times> view2
     \<Rightarrow> view2 \<times> view2" where
  "dirichlet_body th W F sf e k i s =
     (let eval = wk_local_soln_side W e (e_num th) k 0;
          dedx = wk_local_soln_grad_side W e (e_num th) k 0;
          dedy = wk_local_soln_grad_side W e (e_num th) k 1;
          dedz = wk_local_soln_grad_side W e (e_num th) k 2;
          lambda = side_lambda th W e k;
          resindex = wk_offsets W (e_num th) i;
          v = wk_basis_side W e i k;
          dvdx = wk_basis_grad_side W e i k 0;
          dvdy = wk_basis_grad_side W e i k 1;
          dvdz = wk_basis_grad_side W e i k 2;
          weakDiriScale = 10 * diff_side F e k / wk_h W e;
          res1 = add_to (fst s) e resindex
            (- diff_side F e k * dedx * wk_normals W e k 0 * v
             - sf * diff_side F e k * dvdx * wk_normals W e k 0 * (eval - lambda)
             + weakDiriScale * (eval - lambda) * v);
          res2 = (if spaceDim th > 1
                  then add_to res1 e resindex
                    (- diff_side F e k * dedy * wk_normals W e k 1 * v
                     - sf * diff_side F e k * dvdy * wk_normals W e k 1 * (eval - lambda))
                  else res1);
          res3 = (if spaceDim th > 2
                  then add_to res2 e resindex
                    (- diff_side F e k * dedz * wk_normals W e k 2 * v
                     - sf * diff_side F e k * dvdz * wk_normals W e k 2 * (eval - lambda))
                  else res2);
          adj1 = (if wk_isAdjoint W
                  then add_to (snd s) e resindex
                    (sf * diff_side F e k * dvdx * wk_normals W e k 0 * lambda
                     - weakDiriScale * lambda * v)
                  else snd s);
          adj2 = (if wk_isAdjoint W \<and> spaceDim th > 1
                  then add_to adj1 e resindex
                    (sf * diff_side F e k * dvdy * wk_normals W e k 1 * lambda)
                  else adj1);
          adj3 = (if wk_isAdjoint W \<and> spaceDim th > 2
                  then add_to adj2 e resindex
                    (sf * diff_side F e k * dvdz * wk_normals W e k 2 * lambda)
                  else adj2)
      in (res3, adj3))"

definition boundaryResidual ::
  "thermal \<Rightarrow> workset \<Rightarrow> thermal_functions \<Rightarrow> view2 \<times> view2" where
  "boundaryResidual th W F =
     (let sf = (if wk_isAdjoint W then 1 else formparam th);
          cside = wk_currentside W
      in fold (\<lambda>e s.
           if wk_sideinfo W e (e_num th) cside 0 = 2
           then fold (\<lambda>k. fold (\<lambda>i. neumann_body th W F e k i) [0..<wk_numBasis_side W])
                  [0..<wk_numip_side W] s
           else if wk_sideinfo W e (e_num th) cside 0 = 1
           then fold (\<lambda>k. fold (\<lambda>i. dirichlet_body th W F sf e k i) [0..<wk_numBasis_side W])
                  [0..<wk_numip_side W] s
           else s)
         [0..<wk_sideinfo_dim0 W] (wk_res W, wk_adjrhs W))"

text \<open>
  The boundary terms as the specification writes them: the symmetric Nitsche form
  \<open>- \<kappa> \<partial>u/\<partial>n \<phi> - s \<kappa> \<partial>\<phi>/\<partial>n (u - g) + (10 \<kappa>/h) (u - g) \<phi>\<close> with \<open>s = 1\<close> in adjoint mode
  and \<open>s = form_param\<close> otherwise, and the Neumann term \<open>- g\<^sub>N \<phi>\<close>.  Normal derivatives are
  sums over the \<open>d\<close> space dimensions.  The Dirichlet value \<open>g\<close> at the quadrature point is
  an argument: it is the prescribed boundary datum, whatever the code takes in its place.
\<close>

definition spec_nitsche_term ::
  "thermal \<Rightarrow> workset \<Rightarrow> thermal_functions \<Rightarrow> real \<Rightarrow> nat \<Rightarrow> nat \<Rightarrow> nat \<Rightarrow> nat \<Rightarrow> real" where
  "spec_nitsche_term th W F g d e k i =
     (let kappa = diff_side F e k;
          s = (if wk_isAdjoint W then 1 else formparam th);
          u = wk_local_soln_side W e (e_num th) k 0;
          du_dn = (\<Sum>j<d. wk_local_soln_grad_side W e (e_num th) k j * wk_normals W e k j);
          dphi_dn = (\<Sum>j<d. wk_basis_grad_side W e i k j * wk_normals W e k j);
          phi = wk_basis_side W e i k
      in - kappa * du_dn * phi - s * kappa * dphi_dn * (u - g)
         + (10 * kappa / wk_h W e) * (u - g) * phi)"

definition spec_neumann_term ::
  "workset \<Rightarrow> thermal_functions \<Rightarrow> nat \<Rightarrow> nat \<Rightarrow> nat \<Rightarrow> real" where
  "spec_neumann_term W F e k i = - nsource F e k * wk_basis_side W e i k"

text \<open>
  The side of the example taken as a weak Dirichlet side of the domain boundary: kind 1,
  in side set 0 (so the second tag entry is not \<open>-1\<close>).  The datum prescribed on it is
  \<open>g = 7\<close>.
\<close>

definition example_dirichlet_workset :: workset where
  "example_dirichlet_workset =
     example_workset\<lparr>wk_sideinfo := (\<lambda>e n s j. if j = 0 then 1 else 0)\<rparr>"

section \<open>The subgrid model (SubGridFEM2): side information and flux projection\<close>

text \<open>
  A four-dimensional integer view \<^verbatim>\<open>Kokkos::View<int****>\<close> is a function of its index
  tuple.  In \<^verbatim>\<open>addMacro\<close> the side information of subcell \<open>e\<close> is copied into a fresh
  (zero) view with first extent 1 and redefined on the way: after the copy of the tag of
  variable \<open>i\<close> and side \<open>j\<close>, a kind of 1 is rewritten to 4 with neighbour marker \<open>-1\<close>.
\<close>

type_synonym view4i = "nat \<times> nat \<times> nat \<times> nat \<Rightarrow> int"

definition redefine_tag :: "view4i \<Rightarrow> nat \<Rightarrow> nat \<Rightarrow> nat \<Rightarrow> nat \<Rightarrow> view4i \<Rightarrow> view4i" where
  "redefine_tag sideinfo dim3 e i j subsideinfo =
     (let sub1 = fold (\<lambda>k s. s((0, i, j, k) := sideinfo (e, i, j, k))) [0..<dim3] subsideinfo
      in if sub1 (0, i, j, 0) = 1
         then (sub1((0, i, j, 0) := 4))((0, i, j, 1) := - 1)
         else sub1)"

definition redefine_sideinfo :: "view4i \<Rightarrow> nat \<Rightarrow> nat \<Rightarrow> nat \<Rightarrow> nat \<Rightarrow> view4i" where
  "redefine_sideinfo sideinfo dim1 dim2 dim3 e =
     fold (\<lambda>i. fold (\<lambda>j. redefine_tag sideinfo dim3 e i j) [0..<dim2]) [0..<dim1] (\<lambda>_. 0)"

text \<open>
  What \<^verbatim>\<open>updateFlux\<close> reads of a subgrid cell: its side information, the number of its
  sides and elements, and per side the mortar basis (with its two inner extents), the
  side weights and the flux left in the subgrid workset by \<^verbatim>\<open>computeFlux\<close>.
\<close>

record subgrid_cell =
  sc_sideinfo :: view4i
  sc_numsides :: nat
  sc_numElem :: nat
  sc_mortarbasis :: "nat \<Rightarrow> nat \<Rightarrow> nat \<Rightarrow> nat \<Rightarrow> nat \<Rightarrow> real"
  sc_mortar_dim1 :: "nat \<Rightarrow> nat \<Rightarrow> nat"
  sc_mortar_dim2 :: "nat \<Rightarrow> nat \<Rightarrow> nat"
  sc_wts_side :: "nat \<Rightarrow> nat \<Rightarrow> nat \<Rightarrow> real"
  sc_flux :: "nat \<Rightarrow> nat \<Rightarrow> nat \<Rightarrow> nat \<Rightarrow> real"

text \<open>The macro workset as far as the projection goes.\<close>

record macro_workset =
  mw_res :: view2
  mw_offsets :: "nat \<Rightarrow> nat \<Rightarrow> nat"
  mw_usebasis :: "nat \<Rightarrow> nat"

text \<open>The projection of the flux of side \<open>s\<close>, element \<open>c\<close>, macro variable \<open>n\<close>.\<close>

definition project_flux ::
  "subgrid_cell \<Rightarrow> macro_workset \<Rightarrow> nat \<Rightarrow> real \<Rightarrow> nat \<Rightarrow> nat \<Rightarrow> nat \<Rightarrow> view2 \<Rightarrow> view2" where
  "project_flux cell M macroelemindex fwt s c n res =
     fold (\<lambda>j. fold (\<lambda>i r.
         add_to r macroelemindex (mw_offsets M n j)
           (sc_mortarbasis cell s (mw_usebasis M n) c j i * sc_flux cell s c n i *
              sc_wts_side cell s c i * fwt))
       [0..<sc_mortar_dim2 cell s (mw_usebasis M n)])
     [0..<sc_mortar_dim1 cell s (mw_usebasis M n)] res"

text \<open>The body of the loop over the sides of one cell.\<close>

definition flux_side ::
  "subgrid_cell \<Rightarrow> macro_workset \<Rightarrow> nat \<Rightarrow> nat \<Rightarrow> real \<Rightarrow> nat \<Rightarrow> view2 \<Rightarrow> view2" where
  "flux_side cell M nummacroVars macroelemindex fwt s res =
     (if sc_sideinfo cell (0, 0, s, 1) = - 1
      then fold (\<lambda>c. fold (\<lambda>n r.
               if sc_sideinfo cell (c, n, s, 1) = - 1
               then project_flux cell M macroelemindex fwt s c n r
               else r)
             [0..<nummacroVars])
           [0..<sc_numElem cell] res
      else res)"

definition updateFlux ::
  "subgrid_cell list \<Rightarrow> macro_workset \<Rightarrow> nat \<Rightarrow> nat \<Rightarrow> real \<Rightarrow> view2" where
  "updateFlux cells M nummacroVars macroelemindex fwt =
     fold (\<lambda>cell. fold (flux_side cell M nummacroVars macroelemindex fwt)
                     [0..<sc_numsides cell])
       cells (mw_res M)"

text \<open>
  What the loops add to the macro residual entry \<open>p\<close>, written as nested sums: only sides
  whose marker is \<open>-1\<close> (for element 0 and variable 0, and for the element and variable at
  hand) contribute.
\<close>

definition projected_flux ::
  "subgrid_cell \<Rightarrow> macro_workset \<Rightarrow> nat \<Rightarrow> real \<Rightarrow> nat \<Rightarrow> nat \<Rightarrow> nat \<Rightarrow> nat \<times> nat \<Rightarrow> real" where
  "projected_flux cell M macroelemindex fwt s c n p =
     (\<Sum>j\<leftarrow>[0..<sc_mortar_dim1 cell s (mw_usebasis M n)].
        \<Sum>i\<leftarrow>[0..<sc_mortar_dim2 cell s (mw_usebasis M n)].
          if p = (macroelemindex, mw_offsets M n j)
          then sc_mortarbasis cell s (mw_usebasis M n) c j i * sc_flux cell s c n i *
                 sc_wts_side cell s c i * fwt
          else 0)"

definition side_flux_sum ::
  "subgrid_cell \<Rightarrow> macro_workset \<Rightarrow> nat \<Rightarrow> nat \<Rightarrow> real \<Rightarrow> nat \<Rightarrow> nat \<times> nat \<Rightarrow> real" where
  "side_flux_sum cell M nummacroVars macroelemindex fwt s p =
     (if sc_sideinfo cell (0, 0, s, 1) = - 1
      then (\<Sum>c\<leftarrow>[0..<sc_numElem cell]. \<Sum>n\<leftarrow>[0..<nummacroVars].
              if sc_sideinfo cell (c, n, s, 1) = - 1
              then projected_flux cell M macroelemindex fwt s c n p else 0)
      else 0)"

text \<open>An update that adds to every entry an amount that does not depend on the view.\<close>

definition adds :: "(view2 \<Rightarrow> view2) \<Rightarrow> (nat \<times> nat \<Rightarrow> real) \<Rightarrow> bool" where
  "adds F d \<longleftrightarrow> (\<forall>res p. F res p = res p + d p)"

text \<open>
  A macro element with one variable, one side and one subcell, whose only side is tagged
  weak Dirichlet, and the subgrid cell that results from it.
\<close>

definition example_sideinfo :: view4i where
  "example_sideinfo = (\<lambda>(e, i, j, k). if k = 0 then 1 else if k = 1 then 0 else 9)"

definition example_cell :: subgrid_cell where
  "example_cell = \<lparr>sc_sideinfo = redefine_sideinfo example_sideinfo 1 1 4 0,
     sc_numsides = 1, sc_numElem = 1,
     sc_mortarbasis = (\<lambda>s b c j i. 1), sc_mortar_dim1 = (\<lambda>s b. 1),
     sc_mortar_dim2 = (\<lambda>s b. 1), sc_wts_side = (\<lambda>s c i. 1), sc_flux = (\<lambda>s c n i. 3)\<rparr>"

definition example_macro_workset :: macro_workset where
  "example_macro_workset = \<lparr>mw_res = (\<lambda>p. 0), mw_offsets = (\<lambda>n j. j), mw_usebasis = (\<lambda>n. 0)\<rparr>"

section \<open>Sensitivities (solver::computeSensitivities, solver::computeDiscretizedSensitivities)\<close>


















section \<open>Properties of the Newton loop\<close>

lemma NLiter_nl_body: "NLiter (nl_body S a s) = NLiter s + 1"
  by (simp add: nl_body_def Let_def)

lemma nl_loop_exit: "\<not> nl_continue S m (nl_loop S a m s)"
proof (induction S a m s rule: nl_loop.induct)
  case (1 S a m s)
  then show ?case
    by (cases "nl_continue S m s") (simp_all add: nl_loop.simps [of S a m s])
qed

lemma nl_loop_trace:
  "\<exists>n. nl_loop S a m s = (nl_body S a ^^ n) s \<and>
       (\<forall>k<n. nl_continue S m ((nl_body S a ^^ k) s))"
proof (induction S a m s rule: nl_loop.induct)
  case (1 S a m s)
  show ?case
  proof (cases "nl_continue S m s")
    case False
    then have "nl_loop S a m s = (nl_body S a ^^ 0) s"
      by (simp add: nl_loop.simps [of S a m s])
    then show ?thesis by blast
  next
    case True
    from "1.IH" [OF True] obtain n where
      n: "nl_loop S a m (nl_body S a s) = (nl_body S a ^^ n) (nl_body S a s)"
         "\<forall>k<n. nl_continue S m ((nl_body S a ^^ k) (nl_body S a s))"
      by blast
    have "nl_loop S a m s = (nl_body S a ^^ Suc n) s"
      using True n(1) by (simp add: nl_loop.simps [of S a m s] funpow_swap1)
    moreover have "nl_continue S m ((nl_body S a ^^ k) s)" if "k < Suc n" for k
    proof (cases k)
      case 0
      then show ?thesis using True by simp
    next
      case (Suc j)
      with that n(2) show ?thesis by (simp add: funpow_swap1)
    qed
    ultimately show ?thesis by blast
  qed
qed

lemma nl_loop_NLiter_le: "NLiter s \<le> m \<Longrightarrow> NLiter (nl_loop S a m s) \<le> m"
proof (induction S a m s rule: nl_loop.induct)
  case (1 S a m s)
  show ?case
  proof (cases "nl_continue S m s")
    case False
    with "1.prems" show ?thesis by (simp add: nl_loop.simps [of S a m s])
  next
    case True
    then have "NLiter (nl_body S a s) \<le> m"
      by (simp add: NLiter_nl_body nl_continue_def)
    from "1.IH" [OF True this] True show ?thesis
      by (simp add: nl_loop.simps [of S a m s])
  qed
qed





lemma newton_iterate_Suc:
  "newton_iterate S a v (Suc k) = nl_body S a (newton_iterate S a v k)"
  by (simp add: newton_iterate_def)

lemma NLiter_newton_iterate: "NLiter (newton_iterate S a v k) = int k"
  by (induction k) (simp_all add: newton_iterate_Suc NLiter_nl_body, simp add: newton_iterate_def nl_init_def)







section \<open>Properties of the preconditioner cascade and of the failure report\<close>

lemma example_stalled_solver_result:
  "nonlinearSolver example_stalled_solver example_args example_vectors =
     \<lparr>NLiter = 1, NLerr_first = 1, NLerr_scaled = 1, NLerr = 10 * (1 / 10 ^ 6),
      vecs = example_vectors, store_adjPrev = False\<rparr>"
proof -
  let ?S = example_stalled_solver
  let ?s0 = "nl_init ?S example_args example_vectors"
  let ?s1 = "nl_body ?S example_args ?s0"
  have s1: "?s1 = \<lparr>NLiter = 1, NLerr_first = 1, NLerr_scaled = 1, NLerr = 10 * (1 / 10 ^ 6),
      vecs = example_vectors, store_adjPrev = False\<rparr>"
    by (simp add: nl_body_def nl_init_def example_stalled_solver_def Let_def newton_update_def
        vec_update_def example_vectors_def)
  have c0: "nl_continue ?S 1 ?s0"
    by (simp add: nl_continue_def nl_init_def example_stalled_solver_def)
  have c1: "\<not> nl_continue ?S 1 ?s1"
    by (simp add: s1 nl_continue_def)
  have "nl_loop ?S example_args 1 ?s0 = ?s1"
    using c0 c1 by (simp add: nl_loop.simps [of ?S example_args 1 ?s0]
        nl_loop.simps [of ?S example_args 1 ?s1])
  moreover have "maxiter_of ?S = 1"
    by (simp add: maxiter_of_def example_stalled_solver_def)
  ultimately show ?thesis by (simp add: nonlinearSolver_def s1)
qed

text \<open>
  C8 as stated fails: on rank 0, with the default verbosity 0, a forward solve that hits
  its iteration cap with the scaled residual above the tolerance prints no failure message.
\<close>

theorem nonconvergence_not_reported_counterexample:
  "NLerr_scaled (nonlinearSolver example_stalled_solver example_args example_vectors)
      > NLtol example_stalled_solver \<and>
   maxiter_of example_stalled_solver
      \<le> NLiter (nonlinearSolver example_stalled_solver example_args example_vectors) \<and>
   comm_rank example_stalled_solver = 0 \<and>
   \<not> failure_reported example_stalled_solver
       (nonlinearSolver example_stalled_solver example_args example_vectors)"
  by (simp add: example_stalled_solver_result failure_reported_def maxiter_of_def)
     (simp add: example_stalled_solver_def)

text \<open>
  C8, amended.  In the domain-decomposition branch of the Epetra linear solve a first
  condition estimate above \<open>10\<^sup>1\<^sup>3\<close> or below 1, and nothing else, starts the cascade.  The
  re-setups use the thresholds \<open>(1e-5, 0)\<close>, \<open>(1e-5, 0.01)\<close>, \<open>(1e-2, 0)\<close>, \<open>(1e-2, 0.01)\<close>
  in this order; one is made only after an estimate outside \<open>[1, 10\<^sup>1\<^sup>3]\<close>; at most four are
  made; the estimate kept is the one returned by the last construction; when fewer than
  four were made it lies in \<open>[1, 10\<^sup>1\<^sup>3]\<close>; and \<^verbatim>\<open>SAD PRECONDITIONER\<close> is printed exactly
  when four were made and the last estimate is still above \<open>10\<^sup>1\<^sup>3\<close>.  The Newton loop returns
  the state reached after finitely many passes; it ends with the scaled residual above
  \<open>NLtol\<close> only when the iteration cap is reached; and the failure message is printed
  exactly when the rank is 0, the solver is not in adjoint mode, the verbosity exceeds 1
  and either \<^verbatim>\<open>MaxNLiter\<close> is negative or the scaled residual is above \<open>NLtol\<close>.
\<close>

theorem preconditioner_cascade_and_report:
  "(resetups (domDecompPreconditioner ConstructPreconditioner thresh0) \<noteq> [] \<longleftrightarrow>
      10 ^ 13 < ConstructPreconditioner thresh0 \<or> ConstructPreconditioner thresh0 < 1) \<and>
   resetups (domDecompPreconditioner ConstructPreconditioner thresh0) =
      take (length (resetups (domDecompPreconditioner ConstructPreconditioner thresh0)))
        resetup_thresholds \<and>
   length (resetups (domDecompPreconditioner ConstructPreconditioner thresh0)) \<le> 4 \<and>
   (\<forall>k < length (resetups (domDecompPreconditioner ConstructPreconditioner thresh0)).
      10 ^ 13 < ConstructPreconditioner ((thresh0 # resetup_thresholds) ! k) \<or>
      ConstructPreconditioner ((thresh0 # resetup_thresholds) ! k) < 1) \<and>
   final_condest (domDecompPreconditioner ConstructPreconditioner thresh0) =
      ConstructPreconditioner ((thresh0 # resetup_thresholds) !
        length (resetups (domDecompPreconditioner ConstructPreconditioner thresh0))) \<and>
   (length (resetups (domDecompPreconditioner ConstructPreconditioner thresh0)) < 4 \<longrightarrow>
      1 \<le> final_condest (domDecompPreconditioner ConstructPreconditioner thresh0) \<and>
      final_condest (domDecompPreconditioner ConstructPreconditioner thresh0) \<le> 10 ^ 13) \<and>
   (sad_preconditioner (domDecompPreconditioner ConstructPreconditioner thresh0) \<longleftrightarrow>
      length (resetups (domDecompPreconditioner ConstructPreconditioner thresh0)) = 4 \<and>
      10 ^ 13 < final_condest (domDecompPreconditioner ConstructPreconditioner thresh0)) \<and>
   (\<exists>n. nonlinearSolver S a v = newton_iterate S a v n \<and>
        NLiter (nonlinearSolver S a v) = int n) \<and>
   (NLtol S < NLerr_scaled (nonlinearSolver S a v) \<longrightarrow>
      maxiter_of S \<le> NLiter (nonlinearSolver S a v)) \<and>
   (failure_reported S (nonlinearSolver S a v) \<longleftrightarrow>
      comm_rank S = 0 \<and> \<not> useadjoint S \<and> 1 < verbosity S \<and>
      (MaxNLiter S < 0 \<or> NLtol S < NLerr_scaled (nonlinearSolver S a v)))"
proof -
  let ?R = "domDecompPreconditioner ConstructPreconditioner thresh0"
  let ?sF = "nonlinearSolver S a v"
  have trigger: "resetups ?R \<noteq> [] \<longleftrightarrow>
      10 ^ 13 < ConstructPreconditioner thresh0 \<or> ConstructPreconditioner thresh0 < 1"
    by (simp add: domDecompPreconditioner_def bad_condest_def Let_def)
  have order: "resetups ?R = take (length (resetups ?R)) resetup_thresholds"
    by (simp add: domDecompPreconditioner_def resetup_thresholds_def Let_def)
  have most: "length (resetups ?R) \<le> 4"
    by (simp add: domDecompPreconditioner_def Let_def)
  have before: "\<forall>k < length (resetups ?R).
      10 ^ 13 < ConstructPreconditioner ((thresh0 # resetup_thresholds) ! k) \<or>
      ConstructPreconditioner ((thresh0 # resetup_thresholds) ! k) < 1"
    by (simp add: domDecompPreconditioner_def resetup_thresholds_def bad_condest_def Let_def
        All_less_Suc2)
  have kept: "final_condest ?R =
      ConstructPreconditioner ((thresh0 # resetup_thresholds) ! length (resetups ?R))"
    by (simp add: domDecompPreconditioner_def resetup_thresholds_def Let_def)
  have good: "length (resetups ?R) < 4 \<longrightarrow>
      1 \<le> final_condest ?R \<and> final_condest ?R \<le> 10 ^ 13"
    by (simp add: domDecompPreconditioner_def bad_condest_def Let_def not_less)
  have sad: "sad_preconditioner ?R \<longleftrightarrow>
      length (resetups ?R) = 4 \<and> 10 ^ 13 < final_condest ?R"
    by (simp add: domDecompPreconditioner_def Let_def)
  from nl_loop_trace [of S a "maxiter_of S" "nl_init S a v"]
  obtain n where n: "?sF = newton_iterate S a v n"
    by (auto simp: nonlinearSolver_def newton_iterate_def)
  then have returns: "\<exists>n. ?sF = newton_iterate S a v n \<and> NLiter ?sF = int n"
    by (metis NLiter_newton_iterate)
  have cap: "NLtol S < NLerr_scaled ?sF \<longrightarrow> maxiter_of S \<le> NLiter ?sF"
    using nl_loop_exit [of S "maxiter_of S" a "nl_init S a v"]
    by (auto simp: nonlinearSolver_def nl_continue_def)
  have le: "NLiter ?sF \<le> max 0 (MaxNLiter S)" if "\<not> useadjoint S"
  proof (cases "0 \<le> MaxNLiter S")
    case True
    then have "NLiter (nl_init S a v) \<le> MaxNLiter S"
      by (simp add: nl_init_def)
    from nl_loop_NLiter_le [OF this, of S a] that show ?thesis
      by (simp add: nonlinearSolver_def maxiter_of_def)
  next
    case False
    then have "\<not> nl_continue S (MaxNLiter S) (nl_init S a v)"
      by (simp add: nl_continue_def nl_init_def)
    then have "nl_loop S a (MaxNLiter S) (nl_init S a v) = nl_init S a v"
      by (simp add: nl_loop.simps [of S a "MaxNLiter S" "nl_init S a v"])
    moreover have "NLiter (nl_init S a v) = 0"
      by (simp add: nl_init_def)
    ultimately show ?thesis using that
      by (simp add: nonlinearSolver_def maxiter_of_def)
  qed
  have zero: "NLiter ?sF = 0" if "MaxNLiter S < 0" "\<not> useadjoint S"
  proof -
    have "\<not> nl_continue S (MaxNLiter S) (nl_init S a v)"
      using that by (simp add: nl_continue_def nl_init_def)
    then have "nl_loop S a (MaxNLiter S) (nl_init S a v) = nl_init S a v"
      by (simp add: nl_loop.simps [of S a "MaxNLiter S" "nl_init S a v"])
    moreover have "NLiter (nl_init S a v) = 0"
      by (simp add: nl_init_def)
    ultimately show ?thesis using that
      by (simp add: nonlinearSolver_def maxiter_of_def)
  qed
  have report: "failure_reported S ?sF \<longleftrightarrow>
      comm_rank S = 0 \<and> \<not> useadjoint S \<and> 1 < verbosity S \<and>
      (MaxNLiter S < 0 \<or> NLtol S < NLerr_scaled ?sF)"
    using le zero by (cases "MaxNLiter S < 0") (auto simp: failure_reported_def)
  from trigger order most before kept good sad returns cap report show ?thesis
    by (intro conjI)
qed

theorem preconditioner_cascade_and_report_witness:
  "resetups (domDecompPreconditioner example_condest (0, 0)) =
      [(1 / 10 ^ 5, 0), (1 / 10 ^ 5, 1 / 100)] \<and>
   final_condest (domDecompPreconditioner example_condest (0, 0)) =
      example_condest (1 / 10 ^ 5, 1 / 100) \<and>
   final_condest (domDecompPreconditioner example_condest (0, 0)) = 50 \<and>
   \<not> sad_preconditioner (domDecompPreconditioner example_condest (0, 0)) \<and>
   example_small_condest (0, 0) < 1 \<and>
   resetups (domDecompPreconditioner example_small_condest (0, 0)) = [(1 / 10 ^ 5, 0)] \<and>
   final_condest (domDecompPreconditioner example_small_condest (0, 0)) = 50 \<and>
   length (resetups (domDecompPreconditioner example_hopeless_condest (0, 0))) = 4 \<and>
   sad_preconditioner (domDecompPreconditioner example_hopeless_condest (0, 0)) \<and>
   NLtol example_stalled_solver
      < NLerr_scaled (nonlinearSolver example_stalled_solver example_args example_vectors) \<and>
   NLiter (nonlinearSolver example_stalled_solver example_args example_vectors) = 1 \<and>
   maxiter_of example_stalled_solver = 1 \<and>
   \<not> failure_reported example_stalled_solver
       (nonlinearSolver example_stalled_solver example_args example_vectors) \<and>
   failure_reported (example_stalled_solver\<lparr>verbosity := 2\<rparr>)
       (nonlinearSolver (example_stalled_solver\<lparr>verbosity := 2\<rparr>) example_args example_vectors)"
proof -
  let ?S = example_stalled_solver
  let ?L = "example_stalled_solver\<lparr>verbosity := 2\<rparr>"
  have res: "domDecompPreconditioner example_condest (0, 0) =
      \<lparr>resetups = [(1 / 10 ^ 5, 0), (1 / 10 ^ 5, 1 / 100)], final_condest = 50,
       sad_preconditioner = False\<rparr>"
    by (simp add: domDecompPreconditioner_def example_condest_def bad_condest_def Let_def)
  have small: "domDecompPreconditioner example_small_condest (0, 0) =
      \<lparr>resetups = [(1 / 10 ^ 5, 0)], final_condest = 50, sad_preconditioner = False\<rparr>"
    by (simp add: domDecompPreconditioner_def example_small_condest_def bad_condest_def Let_def)
  have hopeless: "domDecompPreconditioner example_hopeless_condest (0, 0) =
      \<lparr>resetups = [(1 / 10 ^ 5, 0), (1 / 10 ^ 5, 1 / 100), (1 / 100, 0), (1 / 100, 1 / 100)],
       final_condest = 10 ^ 14, sad_preconditioner = True\<rparr>"
    by (simp add: domDecompPreconditioner_def example_hopeless_condest_def bad_condest_def
        Let_def)
  have S: "NLtol ?S = 1 / 10 ^ 6" "MaxNLiter ?S = 1" "useadjoint ?S = False"
    "comm_rank ?S = 0" "verbosity ?S = 0"
    by (simp_all add: example_stalled_solver_def)
  have stalled: "NLerr_scaled (nonlinearSolver ?S example_args example_vectors) = 1"
    "NLiter (nonlinearSolver ?S example_args example_vectors) = 1"
    by (simp_all add: example_stalled_solver_result)
  have same: "nonlinearSolver ?L example_args example_vectors
      = nonlinearSolver ?S example_args example_vectors"
  proof -
    have body: "nl_body ?L = nl_body ?S"
      by (intro ext) (simp add: nl_body_def newton_update_def Let_def)
    have cont: "nl_continue ?L = nl_continue ?S"
      by (intro ext) (simp add: nl_continue_def)
    have "nl_loop ?L a m s = nl_loop ?S a m s" for a m s
    proof (induction ?S a m s rule: nl_loop.induct)
      case (1 a m s)
      then show ?case
        by (simp add: nl_loop.simps [of ?L a m s] nl_loop.simps [of ?S a m s] body cont)
    qed
    then show ?thesis
      by (simp add: nonlinearSolver_def maxiter_of_def nl_init_def)
  qed
  from preconditioner_cascade_and_report
         [of example_condest "(0, 0)" ?S example_args example_vectors]
  have "failure_reported ?S (nonlinearSolver ?S example_args example_vectors) \<longleftrightarrow>
      comm_rank ?S = 0 \<and> \<not> useadjoint ?S \<and> 1 < verbosity ?S \<and>
      (MaxNLiter ?S < 0 \<or> NLtol ?S < NLerr_scaled (nonlinearSolver ?S example_args example_vectors))"
    by blast
  then have quiet: "\<not> failure_reported ?S (nonlinearSolver ?S example_args example_vectors)"
    by (simp add: S)
  from preconditioner_cascade_and_report
         [of example_small_condest "(0, 0)" ?L example_args example_vectors]
  have "failure_reported ?L (nonlinearSolver ?L example_args example_vectors) \<longleftrightarrow>
      comm_rank ?L = 0 \<and> \<not> useadjoint ?L \<and> 1 < verbosity ?L \<and>
      (MaxNLiter ?L < 0 \<or> NLtol ?L < NLerr_scaled (nonlinearSolver ?L example_args example_vectors))"
    by blast
  then have loud: "failure_reported ?L (nonlinearSolver ?L example_args example_vectors)"
    by (simp add: same stalled S)
  have cap: "maxiter_of ?S = 1"
    by (simp add: maxiter_of_def S)
  from preconditioner_cascade_and_report
         [of example_condest "(0, 0)" ?S example_args example_vectors]
  have "final_condest (domDecompPreconditioner example_condest (0, 0)) =
      example_condest (((0, 0) # resetup_thresholds) !
        length (resetups (domDecompPreconditioner example_condest (0, 0))))"
    by blast
  then have tied: "final_condest (domDecompPreconditioner example_condest (0, 0)) =
      example_condest (1 / 10 ^ 5, 1 / 100)"
    by (simp add: res resetup_thresholds_def)
  have below: "example_small_condest (0, 0) < 1"
    by (simp add: example_small_condest_def)
  from res small hopeless stalled quiet loud cap tied below S(1) show ?thesis
    by simp
qed

section \<open>Properties of the time loop\<close>

lemma fill_entries_Suc: "fill_entries (Suc n) f x = (fill_entries n f x)[n := f n]"
  by (simp add: fill_entries_def)

lemma length_fill_entries: "length (fill_entries n f x) = length x"
  by (induction n) (simp_all add: fill_entries_Suc, simp add: fill_entries_def)

lemma nth_fill_entries:
  "i < length x \<Longrightarrow> fill_entries n f x ! i = (if i < n then f i else x ! i)"
proof (induction n)
  case 0
  then show ?case by (simp add: fill_entries_def)
next
  case (Suc n)
  then show ?case
    by (simp add: fill_entries_Suc length_fill_entries nth_list_update less_Suc_eq)
qed

text \<open>What a forward step does to the vectors, the time and the trajectory.\<close>

lemma transient_run_Suc:
  "transient_run T S initial L_soln solmat grad (Suc k) =
     transient_step T S L_soln k (transient_run T S initial L_soln solmat grad k)"
  by (simp add: transient_run_def)

lemma transient_forward_step_SolMat:
  assumes "\<not> useadjoint S"
  shows "SolMat (transient_step T S L_soln timeiter s) =
     (SolMat s)[Suc timeiter := fill_entries (num_local T)
        (\<lambda>i. u_vec (tvecs (transient_step T S L_soln timeiter s)) ! i)
        (SolMat s ! Suc timeiter)]"
  using assms by (simp add: transient_step_def Let_def)

lemma transient_forward_step_time:
  assumes "\<not> useadjoint S"
  shows "current_time (transient_step T S L_soln timeiter s) = current_time s + deltat_of T"
  using assms by (simp add: transient_step_def Let_def)

lemma transient_run_shape:
  assumes "\<not> useadjoint S"
  shows "length (SolMat (transient_run T S initial L_soln solmat grad k)) = length solmat \<and>
    (\<forall>j < length solmat.
       length (SolMat (transient_run T S initial L_soln solmat grad k) ! j) = length (solmat ! j))"
proof (induction k)
  case 0
  show ?case by (simp add: transient_run_def transient_init_def)
next
  case (Suc k)
  then show ?case
    by (cases "Suc k < length solmat")
       (auto simp: transient_run_Suc transient_forward_step_SolMat [OF assms]
          nth_list_update length_fill_entries list_update_beyond)
qed

lemma transient_run_trajectory:
  assumes "\<not> useadjoint S" and "j < length solmat" and "i < length (solmat ! j)"
  shows "(SolMat (transient_run T S initial L_soln solmat grad k) ! j) ! i =
     (if 1 \<le> j \<and> j \<le> k \<and> i < num_local T
      then u_vec (tvecs (transient_run T S initial L_soln solmat grad j)) ! i
      else (solmat ! j) ! i)"
proof (induction k)
  case 0
  show ?case by (simp add: transient_run_def transient_init_def)
next
  case (Suc k)
  let ?run = "transient_run T S initial L_soln solmat grad"
  have len: "length (SolMat (?run k)) = length solmat"
    "length (SolMat (?run k) ! j) = length (solmat ! j)"
    using transient_run_shape [OF assms(1), of T initial L_soln solmat grad k] assms(2)
    by simp_all
  show ?case
  proof (cases "j = Suc k")
    case True
    have "(SolMat (?run (Suc k)) ! j) ! i =
        fill_entries (num_local T) (\<lambda>i. u_vec (tvecs (?run (Suc k))) ! i)
          (SolMat (?run k) ! Suc k) ! i"
      using True assms(2) len(1)
      by (simp add: transient_run_Suc transient_forward_step_SolMat [OF assms(1)])
    also have "\<dots> = (if i < num_local T then u_vec (tvecs (?run (Suc k))) ! i
                      else (SolMat (?run k) ! Suc k) ! i)"
      using True assms(3) len(2) by (simp add: nth_fill_entries)
    finally show ?thesis using True Suc by simp
  next
    case False
    have "(SolMat (?run (Suc k)) ! j) ! i = (SolMat (?run k) ! j) ! i"
      using False by (simp add: transient_run_Suc transient_forward_step_SolMat [OF assms(1)])
    with False Suc show ?thesis by auto
  qed
qed

lemma transient_run_time:
  assumes "\<not> useadjoint S"
  shows "current_time (transient_run T S initial L_soln solmat grad k) =
     solvetimes0 T + real k * deltat_of T"
proof (induction k)
  case 0
  show ?case using assms by (simp add: transient_run_def transient_init_def)
next
  case (Suc k)
  then show ?case
    by (simp add: transient_run_Suc transient_forward_step_time [OF assms] algebra_simps)
qed

lemma forward_seed_first:
  assumes "i < num_local T" "i < length (u_dot_vec v)" "time_order T = 1 \<or> timeiter = 0"
  shows "u_dot_vec (forward_seed T timeiter solmat v) ! i =
     alpha_of T * (u_vec v ! i - (solmat ! timeiter) ! i)"
  using assms by (auto simp: forward_seed_def nth_fill_entries right_diff_distrib)

lemma forward_seed_second:
  assumes "i < num_local T" "i < length (u_dot_vec v)" "time_order T = 2" "timeiter \<noteq> 0"
  shows "u_dot_vec (forward_seed T timeiter solmat v) ! i =
     alpha_of T * u_vec v ! i - alpha_of T * (4 / 3) * (solmat ! timeiter) ! i
       + alpha_of T * (1 / 3) * (solmat ! (timeiter - 1)) ! i"
  using assms by (simp add: forward_seed_def nth_fill_entries)

text \<open>The stepping solver adds 1 to \<open>u\<close> and \<open>\<alpha>\<close> to \<open>u_dot\<close>, whatever it is given.\<close>

lemma example_stepping_solver_result:
  "vecs (nonlinearSolver example_stepping_solver a
      \<lparr>u_vec = [x], u_dot_vec = [y], phi_vec = [0], phi_dot_vec = [0]\<rparr>) =
     \<lparr>u_vec = [x + 1], u_dot_vec = [y + arg_alpha a], phi_vec = [0], phi_dot_vec = [0]\<rparr>"
proof -
  let ?S = example_stepping_solver
  let ?v = "\<lparr>u_vec = [x], u_dot_vec = [y], phi_vec = [0], phi_dot_vec = [0]\<rparr>"
  let ?s0 = "nl_init ?S a ?v"
  let ?s1 = "nl_body ?S a ?s0"
  have s1: "NLiter ?s1 = 1"
    "vecs ?s1 = \<lparr>u_vec = [x + 1], u_dot_vec = [y + arg_alpha a], phi_vec = [0],
       phi_dot_vec = [0]\<rparr>"
    by (simp_all add: nl_body_def nl_init_def example_stepping_solver_def Let_def
        newton_update_def vec_update_def add.commute)
  have c0: "nl_continue ?S 1 ?s0"
    by (simp add: nl_continue_def nl_init_def example_stepping_solver_def)
  have c1: "\<not> nl_continue ?S 1 ?s1"
    by (simp add: s1 nl_continue_def)
  have "nl_loop ?S a 1 ?s1 = ?s1"
    by (subst nl_loop.simps) (simp only: c1 if_False)
  then have "nl_loop ?S a 1 ?s0 = ?s1"
    by (subst nl_loop.simps) (simp only: c0 if_True)
  moreover have "maxiter_of ?S = 1"
    by (simp add: maxiter_of_def example_stepping_solver_def)
  ultimately show ?thesis by (simp add: nonlinearSolver_def s1)
qed

text \<open>
  C4.  The coefficient is \<open>1/\<Delta>t\<close> for time order 1 and \<open>3/(2\<Delta>t)\<close> for time order 2, with
  \<open>\<Delta>t = finaltime/numsteps\<close>.  A forward call of the transient solver returns the state
  after \<open>numsteps\<close> passes of the time loop, started from the initial vector and the
  trajectory it is given.  In pass \<open>t\<close> the nonlinear solver is called with \<open>\<alpha>\<close> on the
  vectors left by pass \<open>t - 1\<close>, \<open>u\<close> unchanged and \<open>u_dot\<close> seeded with
  \<open>\<alpha>(u - u_prev)\<close> for time order 1 and on the first pass, and with the BDF-2 stencil
  \<open>\<alpha> u - \<alpha>(4/3) u_prev + \<alpha>(1/3) u_prev_prev\<close> for time order 2 afterwards, \<open>u_prev\<close> and
  \<open>u_prev_prev\<close> being the columns \<open>t\<close> and \<open>t - 1\<close> of the trajectory; the vectors after the
  pass are the solver's result.  After \<open>k\<close> passes column \<open>j\<close> of the trajectory holds, for
  \<open>1 \<le> j \<le> k\<close>, the solution \<open>u\<close> that pass \<open>j\<close> produced, and every other entry of the
  trajectory is as the caller supplied it; the time has advanced by \<open>k \<Delta>t\<close>.
\<close>

theorem transientSolver_forward_run:
  assumes "\<not> useadjoint S"
  shows "deltat_of T = finaltime T / real_of_int (numsteps T) \<and>
    (time_order T = 1 \<longrightarrow> alpha_of T = 1 / deltat_of T) \<and>
    (time_order T = 2 \<longrightarrow> alpha_of T = 3 / (2 * deltat_of T)) \<and>
    transientSolver T S initial L_soln solmat grad =
      transient_run T S initial L_soln solmat grad (nat (numsteps T)) \<and>
    u_vec (tvecs (transient_run T S initial L_soln solmat grad 0)) = initial \<and>
    SolMat (transient_run T S initial L_soln solmat grad 0) = solmat \<and>
    (\<forall>t. arg_alpha (step_args T S (transient_run T S initial L_soln solmat grad t)) = alpha_of T \<and>
       u_vec (step_seed T S L_soln t (transient_run T S initial L_soln solmat grad t)) =
         u_vec (tvecs (transient_run T S initial L_soln solmat grad t)) \<and>
       (\<forall>i. i < num_local T \<and>
            i < length (u_dot_vec (tvecs (transient_run T S initial L_soln solmat grad t))) \<longrightarrow>
          (time_order T = 1 \<or> t = 0 \<longrightarrow>
             u_dot_vec (step_seed T S L_soln t (transient_run T S initial L_soln solmat grad t)) ! i =
               alpha_of T * (u_vec (tvecs (transient_run T S initial L_soln solmat grad t)) ! i
                 - (SolMat (transient_run T S initial L_soln solmat grad t) ! t) ! i)) \<and>
          (time_order T = 2 \<and> t \<noteq> 0 \<longrightarrow>
             u_dot_vec (step_seed T S L_soln t (transient_run T S initial L_soln solmat grad t)) ! i =
               alpha_of T * u_vec (tvecs (transient_run T S initial L_soln solmat grad t)) ! i
               - alpha_of T * (4 / 3)
                   * (SolMat (transient_run T S initial L_soln solmat grad t) ! t) ! i
               + alpha_of T * (1 / 3)
                   * (SolMat (transient_run T S initial L_soln solmat grad t) ! (t - 1)) ! i)) \<and>
       tvecs (transient_run T S initial L_soln solmat grad (Suc t)) =
         vecs (nonlinearSolver S
           (step_args T S (transient_run T S initial L_soln solmat grad t))
           (step_seed T S L_soln t (transient_run T S initial L_soln solmat grad t)))) \<and>
    (\<forall>k j i. j < length solmat \<and> i < length (solmat ! j) \<longrightarrow>
       (SolMat (transient_run T S initial L_soln solmat grad k) ! j) ! i =
         (if 1 \<le> j \<and> j \<le> k \<and> i < num_local T
          then u_vec (tvecs (transient_run T S initial L_soln solmat grad j)) ! i
          else (solmat ! j) ! i)) \<and>
    (\<forall>k. length (SolMat (transient_run T S initial L_soln solmat grad k)) = length solmat \<and>
       current_time (transient_run T S initial L_soln solmat grad k) =
         solvetimes0 T + real k * deltat_of T)"
proof -
  let ?run = "transient_run T S initial L_soln solmat grad"
  have seed: "step_seed T S L_soln t s = forward_seed T t (SolMat s) (tvecs s)" for t s
    using assms by (simp add: step_seed_def)
  have a1: "time_order T = 1 \<longrightarrow> alpha_of T = 1 / deltat_of T"
    by (simp add: alpha_of_def)
  have a2: "time_order T = 2 \<longrightarrow> alpha_of T = 3 / (2 * deltat_of T)"
    by (simp add: alpha_of_def)
  have whole: "transientSolver T S initial L_soln solmat grad = ?run (nat (numsteps T))"
    by (simp add: transientSolver_def transient_run_def)
  have start: "u_vec (tvecs (?run 0)) = initial" "SolMat (?run 0) = solmat"
    by (simp_all add: transient_run_def transient_init_def)
  have pass: "arg_alpha (step_args T S (?run t)) = alpha_of T \<and>
       u_vec (step_seed T S L_soln t (?run t)) = u_vec (tvecs (?run t)) \<and>
       (\<forall>i. i < num_local T \<and> i < length (u_dot_vec (tvecs (?run t))) \<longrightarrow>
          (time_order T = 1 \<or> t = 0 \<longrightarrow>
             u_dot_vec (step_seed T S L_soln t (?run t)) ! i =
               alpha_of T * (u_vec (tvecs (?run t)) ! i - (SolMat (?run t) ! t) ! i)) \<and>
          (time_order T = 2 \<and> t \<noteq> 0 \<longrightarrow>
             u_dot_vec (step_seed T S L_soln t (?run t)) ! i =
               alpha_of T * u_vec (tvecs (?run t)) ! i
               - alpha_of T * (4 / 3) * (SolMat (?run t) ! t) ! i
               + alpha_of T * (1 / 3) * (SolMat (?run t) ! (t - 1)) ! i)) \<and>
       tvecs (?run (Suc t)) =
         vecs (nonlinearSolver S (step_args T S (?run t)) (step_seed T S L_soln t (?run t)))"
    for t
  proof (intro conjI allI impI)
    show "arg_alpha (step_args T S (?run t)) = alpha_of T"
      by (simp add: step_args_def)
    show "u_vec (step_seed T S L_soln t (?run t)) = u_vec (tvecs (?run t))"
      by (simp add: seed forward_seed_def)
    show "tvecs (?run (Suc t)) =
         vecs (nonlinearSolver S (step_args T S (?run t)) (step_seed T S L_soln t (?run t)))"
      by (simp add: transient_run_Suc transient_step_def Let_def)
  next
    fix i
    assume i: "i < num_local T \<and> i < length (u_dot_vec (tvecs (?run t)))"
    show "u_dot_vec (step_seed T S L_soln t (?run t)) ! i =
               alpha_of T * (u_vec (tvecs (?run t)) ! i - (SolMat (?run t) ! t) ! i)"
      if "time_order T = 1 \<or> t = 0"
      unfolding seed using i that by (intro forward_seed_first) simp_all
    show "u_dot_vec (step_seed T S L_soln t (?run t)) ! i =
               alpha_of T * u_vec (tvecs (?run t)) ! i
               - alpha_of T * (4 / 3) * (SolMat (?run t) ! t) ! i
               + alpha_of T * (1 / 3) * (SolMat (?run t) ! (t - 1)) ! i"
      if "time_order T = 2 \<and> t \<noteq> 0"
      unfolding seed using i that by (intro forward_seed_second) simp_all
  qed
  have traj: "\<forall>k j i. j < length solmat \<and> i < length (solmat ! j) \<longrightarrow>
       (SolMat (?run k) ! j) ! i =
         (if 1 \<le> j \<and> j \<le> k \<and> i < num_local T then u_vec (tvecs (?run j)) ! i
          else (solmat ! j) ! i)"
    using transient_run_trajectory [OF assms] by blast
  have shape: "\<forall>k. length (SolMat (?run k)) = length solmat \<and>
       current_time (?run k) = solvetimes0 T + real k * deltat_of T"
    using transient_run_shape [OF assms] transient_run_time [OF assms] by blast
  have dt: "deltat_of T = finaltime T / real_of_int (numsteps T)"
    by (simp add: deltat_of_def)
  from dt a1 a2 whole start pass traj shape show ?thesis
    by (intro conjI allI) blast+
qed

theorem transientSolver_forward_run_witness:
  "\<not> useadjoint example_stepping_solver \<and>
   alpha_of (example_transient 1) = 2 \<and>
   alpha_of (example_transient 2) = 3 \<and>
   transientSolver (example_transient 2) example_stepping_solver [5] [] [[5], [0], [0]] [] =
     transient_run (example_transient 2) example_stepping_solver [5] [] [[5], [0], [0]] [] 2 \<and>
   u_dot_vec (step_seed (example_transient 2) example_stepping_solver [] 0
     (transient_run (example_transient 2) example_stepping_solver [5] [] [[5], [0], [0]] [] 0))
     = [0] \<and>
   tvecs (transient_run (example_transient 2) example_stepping_solver [5] [] [[5], [0], [0]] [] 1)
     = \<lparr>u_vec = [6], u_dot_vec = [3], phi_vec = [0], phi_dot_vec = [0]\<rparr> \<and>
   u_dot_vec (step_seed (example_transient 2) example_stepping_solver [] 1
     (transient_run (example_transient 2) example_stepping_solver [5] [] [[5], [0], [0]] [] 1))
     = [- 1] \<and>
   tvecs (transientSolver (example_transient 2) example_stepping_solver [5] [] [[5], [0], [0]] [])
     = \<lparr>u_vec = [7], u_dot_vec = [2], phi_vec = [0], phi_dot_vec = [0]\<rparr> \<and>
   (SolMat (transientSolver (example_transient 2) example_stepping_solver [5] []
      [[5], [0], [0]] []) ! 0) ! 0 = 5 \<and>
   (SolMat (transientSolver (example_transient 2) example_stepping_solver [5] []
      [[5], [0], [0]] []) ! 1) ! 0 = 6 \<and>
   (SolMat (transientSolver (example_transient 2) example_stepping_solver [5] []
      [[5], [0], [0]] []) ! 2) ! 0 = 7 \<and>
   current_time (transientSolver (example_transient 2) example_stepping_solver [5] []
      [[5], [0], [0]] []) = 1"
proof -
  let ?S = example_stepping_solver
  let ?T = "example_transient 2"
  let ?run = "transient_run ?T ?S [5] [] [[5], [0], [0]] []"
  have fwd: "\<not> useadjoint ?S"
    by (simp add: example_stepping_solver_def)
  have T: "num_local ?T = 1" "time_order ?T = 2" "solvetimes0 ?T = 0" "numsteps ?T = 2"
    "deltat_of ?T = 1 / 2"
    by (simp_all add: example_transient_def deltat_of_def)
  have "deltat_of (example_transient 1) = 1 / 2" "time_order (example_transient 1) = 1"
    by (simp_all add: example_transient_def deltat_of_def)
  with transientSolver_forward_run [OF fwd, of "example_transient 1"]
  have a1: "alpha_of (example_transient 1) = 2" by simp
  note main = transientSolver_forward_run [OF fwd, of ?T "[5]" "[]" "[[5], [0], [0]]" "[]"]
  from main T(2,5) have a2: "alpha_of ?T = 3" by simp
  from main have whole: "transientSolver ?T ?S [5] [] [[5], [0], [0]] [] = ?run (nat (numsteps ?T))"
    by blast
  then have whole2: "transientSolver ?T ?S [5] [] [[5], [0], [0]] [] = ?run (Suc (Suc 0))"
    by (simp add: T(4) numeral_2_eq_2)
  from main have step: "tvecs (?run (Suc t)) =
      vecs (nonlinearSolver ?S (step_args ?T ?S (?run t)) (step_seed ?T ?S [] t (?run t)))" for t
    by blast
  from main have alpha: "arg_alpha (step_args ?T ?S (?run t)) = alpha_of ?T" for t
    by blast
  from main have traj: "j < length [[5], [0], [0::real]] \<and> i < length ([[5], [0], [0::real]] ! j) \<longrightarrow>
      (SolMat (?run k) ! j) ! i =
        (if 1 \<le> j \<and> j \<le> k \<and> i < num_local ?T then u_vec (tvecs (?run j)) ! i
         else ([[5], [0], [0]] ! j) ! i)" for k j i
    by blast
  from main have time: "current_time (?run k) = solvetimes0 ?T + real k * deltat_of ?T" for k
    by blast
  have r0: "tvecs (?run 0) = \<lparr>u_vec = [5], u_dot_vec = [0], phi_vec = [0], phi_dot_vec = [0]\<rparr>"
    "SolMat (?run 0) = [[5], [0], [0]]"
    by (simp_all add: transient_run_def transient_init_def T)
  have seed0: "step_seed ?T ?S [] 0 (?run 0) =
      \<lparr>u_vec = [5], u_dot_vec = [0], phi_vec = [0], phi_dot_vec = [0]\<rparr>"
    by (simp add: step_seed_def fwd forward_seed_def r0 T fill_entries_def)
  have r1: "tvecs (?run (Suc 0)) =
      \<lparr>u_vec = [6], u_dot_vec = [3], phi_vec = [0], phi_dot_vec = [0]\<rparr>"
    by (simp add: step [of 0] seed0 example_stepping_solver_result alpha a2)
  have c0: "(SolMat (?run (Suc 0)) ! 0) ! 0 = 5"
    using traj [of 0 0 "Suc 0"] by simp
  have c1: "(SolMat (?run (Suc 0)) ! Suc 0) ! 0 = 6"
    using traj [of "Suc 0" 0 "Suc 0"] by (simp add: T r1)
  have seed1: "step_seed ?T ?S [] (Suc 0) (?run (Suc 0)) =
      \<lparr>u_vec = [6], u_dot_vec = [- 1], phi_vec = [0], phi_dot_vec = [0]\<rparr>"
    by (simp add: step_seed_def fwd forward_seed_def r1 T a2 fill_entries_def c0 c1)
  have r2: "tvecs (?run (Suc (Suc 0))) =
      \<lparr>u_vec = [7], u_dot_vec = [2], phi_vec = [0], phi_dot_vec = [0]\<rparr>"
    by (simp add: step [of "Suc 0"] seed1 example_stepping_solver_result alpha a2)
  have d0: "(SolMat (?run (Suc (Suc 0))) ! 0) ! 0 = 5"
    using traj [of 0 0 "Suc (Suc 0)"] by simp
  have d1: "(SolMat (?run (Suc (Suc 0))) ! Suc 0) ! 0 = 6"
    using traj [of "Suc 0" 0 "Suc (Suc 0)"] by (simp add: T r1)
  have d2: "(SolMat (?run (Suc (Suc 0))) ! Suc (Suc 0)) ! 0 = 7"
    using traj [of "Suc (Suc 0)" 0 "Suc (Suc 0)"] by (simp add: T r2)
  have t2: "current_time (?run (Suc (Suc 0))) = 1"
    using time [of "Suc (Suc 0)"] by (simp add: T)
  have "transientSolver ?T ?S [5] [] [[5], [0], [0]] [] = ?run 2"
    using whole2 by (simp add: numeral_2_eq_2)
  with fwd a1 a2 seed0 r1 seed1 r2 d0 d1 d2 t2 whole2 show ?thesis
    by (simp add: numeral_2_eq_2)
qed

text \<open>What an adjoint step does, and the times and flags of an adjoint run.\<close>

lemma transient_adjoint_step:
  assumes "useadjoint S"
  shows "arg_current_time (step_args T S s) = current_time s"
    and "arg_is_final_time (step_args T S s) = is_final_time s"
    and "current_time (transient_step T S L_soln timeiter s) = current_time s - deltat_of T"
    and "\<not> is_final_time (transient_step T S L_soln timeiter s)"
    and "tvecs (transient_step T S L_soln timeiter s) =
          vecs (nonlinearSolver S (step_args T S s) (adjoint_seed T timeiter L_soln (tvecs s)))"
    and "gradient (transient_step T S L_soln timeiter s) =
          computeSensitivities T
            (sens_active_args (step_args T S s)
               (nonlinearSolver S (step_args T S s) (adjoint_seed T timeiter L_soln (tvecs s))))
            (sens_member_args (step_args T S s)
               (nonlinearSolver S (step_args T S s) (adjoint_seed T timeiter L_soln (tvecs s))))
            (tvecs (transient_step T S L_soln timeiter s)) (gradient s)"
    and "\<not> arg_useadjoint (sens_active_args (step_args T S s) r)"
    and "arg_useadjoint (sens_member_args (step_args T S s) r)"
    and "arg_store_adjPrev (sens_active_args (step_args T S s) r) = store_adjPrev r"
  using assms
  by (simp_all add: transient_step_def step_args_def step_seed_def Let_def
      sens_active_args_def sens_member_args_def)

lemma adjoint_seed_u:
  "i < num_local T \<Longrightarrow> i < length (u_vec v) \<Longrightarrow>
     u_vec (adjoint_seed T timeiter L_soln v) ! i =
       (L_soln ! (length L_soln - timeiter - 1)) ! i"
  by (simp add: adjoint_seed_def Let_def nth_fill_entries)

lemma adjoint_seed_u_dot_first_order:
  "time_order T = 1 \<Longrightarrow> i < num_local T \<Longrightarrow> i < length (u_dot_vec v) \<Longrightarrow>
     u_dot_vec (adjoint_seed T timeiter L_soln v) ! i =
       alpha_of T * ((L_soln ! (length L_soln - timeiter - 1)) ! i
                     - (L_soln ! (length L_soln - timeiter - 2)) ! i)"
  by (simp add: adjoint_seed_def Let_def nth_fill_entries right_diff_distrib)

lemma adjoint_seed_u_dot_other_order:
  "time_order T \<noteq> 1 \<Longrightarrow> u_dot_vec (adjoint_seed T timeiter L_soln v) = u_dot_vec v"
  by (simp add: adjoint_seed_def Let_def)

lemma transient_adjoint_times:
  assumes "useadjoint S"
  shows "current_time (fold (transient_step T S L_soln) [0..<k]
            (transient_init T S initial solmat grad)) = finaltime T - real k * deltat_of T \<and>
         (is_final_time (fold (transient_step T S L_soln) [0..<k]
            (transient_init T S initial solmat grad)) \<longleftrightarrow> k = 0)"
proof (induction k)
  case 0
  show ?case using assms by (simp add: transient_init_def)
next
  case (Suc k)
  then show ?case
    using assms by (simp add: transient_adjoint_step algebra_simps)
qed

lemma subgrid_final_time_only_first:
  assumes "1 / 10 ^ 12 \<le> deltat"
  shows "subgrid_is_final_time (final_time - real k * deltat) final_time \<longleftrightarrow> k = 0"
proof (cases k)
  case 0
  then show ?thesis by (simp add: subgrid_is_final_time_def)
next
  case (Suc j)
  have "0 < (1::real) / 10 ^ 12" by simp
  with assms have pos: "0 \<le> deltat" by linarith
  have "deltat * 1 \<le> deltat * real (Suc j)"
    by (rule mult_left_mono) (use pos in simp_all)
  moreover have "\<bar>final_time - real (Suc j) * deltat - final_time\<bar> = deltat * real (Suc j)"
    using pos by (simp add: abs_mult mult.commute)
  ultimately have "1 / 10 ^ 12 \<le> \<bar>final_time - real (Suc j) * deltat - final_time\<bar>"
    using assms by linarith
  with Suc show ?thesis by (simp add: subgrid_is_final_time_def)
qed

lemma reset_adjPrev_only_first:
  assumes "1 / 10 ^ 12 \<le> deltat"
  shows "reset_adjPrev isAdjoint (subgrid_is_final_time (final_time - real k * deltat) final_time)
           adjPrev =
         (if isAdjoint \<and> k = 0 then map (map (\<lambda>_. 0)) adjPrev else adjPrev)"
  by (simp add: reset_adjPrev_def subgrid_final_time_only_first [OF assms])

lemma transientSolver_adjoint_final_time:
  assumes "useadjoint S"
  shows "current_time (transientSolver T S initial L_soln solmat grad) =
           finaltime T - real (nat (numsteps T)) * deltat_of T"
  using transient_adjoint_times [OF assms, of T L_soln "nat (numsteps T)" initial solmat grad]
  by (simp add: transientSolver_def)

text \<open>
  C5.  In adjoint mode with time order 2 the step loads \<open>u\<close> from the forward trajectory
  but leaves \<open>u_dot\<close> as it was (here the zero vector of the start), although the
  trajectory gives \<open>\<alpha>(u(t) - u(t - \<Delta>t)) = 3 (4 - 2) = 6\<close>; the run starts at
  \<open>finaltime\<close> with the flag set.
\<close>

theorem adjoint_second_order_u_dot_not_rebuilt:
  "current_time example_adjoint_state = finaltime (example_transient 2) \<and>
   is_final_time example_adjoint_state \<and>
   u_vec (step_seed (example_transient 2) example_adjoint_solver example_trajectory 0
      example_adjoint_state) = [4] \<and>
   u_dot_vec (step_seed (example_transient 2) example_adjoint_solver example_trajectory 0
      example_adjoint_state) = [0] \<and>
   alpha_of (example_transient 2) * (example_trajectory ! 2 ! 0 - example_trajectory ! 1 ! 0) = 6"
  by (simp add: example_adjoint_state_def transient_init_def step_seed_def adjoint_seed_def
      example_adjoint_solver_def example_transient_def example_trajectory_def fill_entries_def
      alpha_of_def deltat_of_def Let_def)

text \<open>Whatever the costs, the printed factor is \<open>0/max\<close>, that is 0.\<close>

lemma load_balancing_factor_zero: "load_balancing_factor my_costs = 0"
  by (simp add: load_balancing_factor_def Let_def)

text \<open>
  C9.  The cost estimate is the element count times the number of sub time steps; but for
  two ranks with costs 2 and 4 the factor printed is \<open>0/4 = 0\<close>, not \<open>max/min = 2\<close>: the
  second reduction overwrites \<^verbatim>\<open>gmin\<close> and \<^verbatim>\<open>gmax\<close> stays 0.
\<close>

theorem load_balancing_factor_two_ranks:
  "cost_estimate 3 1 2 = 3 * 2 \<and>
   load_balancing_factor [2, 4] = 0 \<and>
   reduceAll_MAX [2, 4] / reduceAll_MIN [2, 4] = 2"
  by (simp add: cost_estimate_def load_balancing_factor_def Let_def)

section \<open>Properties of the thermal module\<close>

lemma add_to_twice: "add_to (add_to res e r a) e r b = add_to res e r (a + b)"
  by (auto simp: add_to_def fun_eq_iff)

lemma basis_loop:
  "fold (\<lambda>i res. add_to res e (off i) (t i)) [0..<ni] res (e', r) =
     res (e', r) + (if e' = e then (\<Sum>i<ni. if off i = r then t i else 0) else 0)"
  by (induction ni) (auto simp: add_to_def)

lemma quadrature_loop:
  "fold (\<lambda>k. fold (\<lambda>i res. add_to res e (off i) (t k i)) [0..<ni]) [0..<nk] res (e', r) =
     res (e', r) +
       (if e' = e then (\<Sum>k<nk. \<Sum>i<ni. if off i = r then t k i else 0) else 0)"
  by (induction nk) (auto simp: basis_loop)

lemma element_loops_sum:
  assumes "\<And>e k i res. body e k i res = add_to res e (off i) (t e k i)"
  shows "element_loops ne nk ni body res (e', r) =
     res (e', r) +
       (if e' < ne then (\<Sum>k<nk. \<Sum>i<ni. if off i = r then t e' k i else 0) else 0)"
proof -
  have body: "body = (\<lambda>e k i res. add_to res e (off i) (t e k i))"
    using assms by (intro ext) simp
  show ?thesis
    unfolding element_loops_def body
    by (induction ne) (auto simp: quadrature_loop less_Suc_eq)
qed

text \<open>
  In one and two dimensions, and in three dimensions without a coupled velocity, every
  residual entry grows by the sum of the specified weak-form terms of the rows mapped to it.
\<close>

lemma volume_body_1d_spec:
  "volume_body_1d th W F e k i res =
     add_to res e (wk_offsets W (e_num th) i) (spec_volume_term th W F 1 e k i)"
  by (simp add: volume_body_1d_def spec_volume_term_def velocity_num_def Let_def add_to_twice)

lemma volume_body_2d_spec:
  "volume_body_2d th W F e k i res =
     add_to res e (wk_offsets W (e_num th) i) (spec_volume_term th W F 2 e k i)"
  by (simp add: volume_body_2d_def spec_volume_term_def velocity_num_def Let_def add_to_twice
      numeral_2_eq_2 algebra_simps)

lemma volume_body_3d_spec:
  "\<not> have_nsvel th \<Longrightarrow> volume_body_3d th W F e k i res =
     add_to res e (wk_offsets W (e_num th) i) (spec_volume_term th W F 3 e k i)"
  by (simp add: volume_body_3d_def spec_volume_term_def Let_def numeral_3_eq_3 numeral_2_eq_2
      algebra_simps)

lemma volumeResidual_spec:
  assumes "spaceDim th = 1 \<or> spaceDim th = 2 \<or> (spaceDim th = 3 \<and> \<not> have_nsvel th)"
  shows "volumeResidual th W F (e, r) =
     wk_res W (e, r) +
       (if e < wk_res_dim0 W
        then (\<Sum>k<wk_numip W. \<Sum>i<wk_numBasis W.
                if wk_offsets W (e_num th) i = r
                then spec_volume_term th W F (nat (spaceDim th)) e k i else 0)
        else 0)"
proof -
  consider "spaceDim th = 1" | "spaceDim th = 2" | "spaceDim th = 3" "\<not> have_nsvel th"
    using assms by blast
  then show ?thesis
  proof cases
    case 1
    then show ?thesis
      by (simp add: volumeResidual_def
          element_loops_sum [where body = "volume_body_1d th W F", OF volume_body_1d_spec]
          cong: if_cong)
  next
    case 2
    then show ?thesis
      by (simp add: volumeResidual_def
          element_loops_sum [where body = "volume_body_2d th W F", OF volume_body_2d_spec]
          cong: if_cong)
  next
    case 3
    then show ?thesis
      by (simp add: volumeResidual_def
          element_loops_sum [where body = "volume_body_3d th W F", OF volume_body_3d_spec]
          cong: if_cong)
  qed
qed

text \<open>The example module, as \<^verbatim>\<open>setVars\<close> leaves it.\<close>

lemma example_thermal_vars:
  "example_thermal = \<lparr>spaceDim = 3, e_num = 0, ux_num = 1, uy_num = 2, uz_num = 3,
      have_nsvel = True, formparam = 1\<rparr>"
  by (simp add: example_thermal_def setVars_def Let_def upt_rec [of 0] upt_rec [of 1]
      upt_rec [of 2] upt_rec [of 3] upt_rec [of 4])

text \<open>
  C2.  In three dimensions with a coupled velocity the code adds
  \<open>\<partial>ux/\<partial>x \<partial>\<phi>/\<partial>x + \<partial>uy/\<partial>y \<partial>\<phi>/\<partial>y + \<partial>uz/\<partial>x \<partial>\<phi>/\<partial>z\<close> in place of \<open>v\<cdot>\<nabla>u \<phi>\<close>: on the example
  element the residual entry becomes \<open>1 + 5 = 6\<close>, where the specified terms give
  \<open>1 + 1 = 2\<close>.
\<close>

theorem volumeResidual_3d_coupled_example:
  "have_nsvel example_thermal \<and> spaceDim example_thermal = 3 \<and>
   volumeResidual example_thermal example_workset example_functions (0, 0) = 6 \<and>
   wk_res example_workset (0, 0) +
     spec_volume_term example_thermal example_workset example_functions 3 0 0 0 = 2"
  by (simp add: example_thermal_vars volumeResidual_def element_loops_def volume_body_3d_def
      spec_volume_term_def velocity_num_def example_workset_def example_functions_def
      add_to_def Let_def numeral_3_eq_3)

text \<open>The residual component of the boundary loops does not depend on \<open>adjrhs\<close>.\<close>

lemma fst_fold:
  assumes "\<And>x s. fst (f x s) = g x (fst s)"
  shows "fst (fold f xs s) = fold g xs (fst s)"
  by (induction xs arbitrary: s) (simp_all add: assms)

lemma fst_side_loops:
  assumes "\<And>k i s. fst (body k i s) = add_to (fst s) e (off i) (t k i)"
  shows "fst (fold (\<lambda>k. fold (\<lambda>i. body k i) [0..<ni]) [0..<nk] s) (e', r) =
     fst s (e', r) +
       (if e' = e then (\<Sum>k<nk. \<Sum>i<ni. if off i = r then t k i else 0) else 0)"
proof -
  have "fst (fold (\<lambda>k. fold (\<lambda>i. body k i) [0..<ni]) [0..<nk] s) =
      fold (\<lambda>k. fold (\<lambda>i res. add_to res e (off i) (t k i)) [0..<ni]) [0..<nk] (fst s)"
    by (rule fst_fold) (rule fst_fold, rule assms)
  then show ?thesis by (simp add: quadrature_loop)
qed

lemma fst_neumann_body:
  "fst (neumann_body th W F e k i s) =
     add_to (fst s) e (wk_offsets W (e_num th) i) (spec_neumann_term W F e k i)"
  by (simp add: neumann_body_def spec_neumann_term_def Let_def)

lemma fst_dirichlet_body:
  assumes "1 \<le> spaceDim th" "spaceDim th \<le> 3"
  shows "fst (dirichlet_body th W F (if wk_isAdjoint W then 1 else formparam th) e k i s) =
     add_to (fst s) e (wk_offsets W (e_num th) i)
       (spec_nitsche_term th W F (side_lambda th W e k) (nat (spaceDim th)) e k i)"
proof -
  from assms consider "spaceDim th = 1" | "spaceDim th = 2" | "spaceDim th = 3" by linarith
  then show ?thesis
  proof cases
    case 1
    then show ?thesis
      by (simp add: dirichlet_body_def spec_nitsche_term_def Let_def diff_divide_distrib add_divide_distrib
          algebra_simps)
  next
    case 2
    then show ?thesis
      by (simp add: dirichlet_body_def spec_nitsche_term_def Let_def add_to_twice
          numeral_2_eq_2 diff_divide_distrib add_divide_distrib algebra_simps)
  next
    case 3
    then show ?thesis
      by (simp add: dirichlet_body_def spec_nitsche_term_def Let_def add_to_twice
          numeral_2_eq_2 numeral_3_eq_3 diff_divide_distrib add_divide_distrib algebra_simps)
  qed
qed

text \<open>
  For a space dimension of 1, 2 or 3, the residual entry \<open>(e, r)\<close> of an element on the
  current side grows by the sum, over the side quadrature points and the basis functions
  whose row is \<open>r\<close>, of the Neumann term \<open>- g\<^sub>N \<phi>\<close> when the side-info kind is 2, and of the
  Nitsche form when the kind is 1, taken at the value the code puts in the place of \<open>g\<close>:
  the auxiliary variable when the second tag entry is \<open>-1\<close>, and \<open>0\<close> otherwise.
\<close>

lemma boundaryResidual_sum:
  assumes "1 \<le> spaceDim th" "spaceDim th \<le> 3"
  shows "fst (boundaryResidual th W F) (e, r) =
     wk_res W (e, r) +
       (if e < wk_sideinfo_dim0 W
        then (if wk_sideinfo W e (e_num th) (wk_currentside W) 0 = 2
              then (\<Sum>k<wk_numip_side W. \<Sum>i<wk_numBasis_side W.
                      if wk_offsets W (e_num th) i = r
                      then spec_neumann_term W F e k i else 0)
              else if wk_sideinfo W e (e_num th) (wk_currentside W) 0 = 1
              then (\<Sum>k<wk_numip_side W. \<Sum>i<wk_numBasis_side W.
                      if wk_offsets W (e_num th) i = r
                      then spec_nitsche_term th W F (side_lambda th W e k)
                             (nat (spaceDim th)) e k i else 0)
              else 0)
        else 0)"
proof -
  define step where "step = (\<lambda>e s.
           if wk_sideinfo W e (e_num th) (wk_currentside W) 0 = 2
           then fold (\<lambda>k. fold (\<lambda>i. neumann_body th W F e k i) [0..<wk_numBasis_side W])
                  [0..<wk_numip_side W] s
           else if wk_sideinfo W e (e_num th) (wk_currentside W) 0 = 1
           then fold (\<lambda>k. fold (\<lambda>i. dirichlet_body th W F
                    (if wk_isAdjoint W then 1 else formparam th) e k i) [0..<wk_numBasis_side W])
                  [0..<wk_numip_side W] s
           else s)"
  define gain where "gain = (\<lambda>e.
           if wk_sideinfo W e (e_num th) (wk_currentside W) 0 = 2
              then (\<Sum>k<wk_numip_side W. \<Sum>i<wk_numBasis_side W.
                      if wk_offsets W (e_num th) i = r
                      then spec_neumann_term W F e k i else 0)
              else if wk_sideinfo W e (e_num th) (wk_currentside W) 0 = 1
              then (\<Sum>k<wk_numip_side W. \<Sum>i<wk_numBasis_side W.
                      if wk_offsets W (e_num th) i = r
                      then spec_nitsche_term th W F (side_lambda th W e k)
                             (nat (spaceDim th)) e k i else 0)
              else 0)"
  have step: "fst (step e' s) (e, r) = fst s (e, r) + (if e = e' then gain e' else 0)" for e' s
    unfolding step_def gain_def
    by (simp add: fst_side_loops [where body = "neumann_body th W F e'", OF fst_neumann_body]
        fst_side_loops [where body = "dirichlet_body th W F
                    (if wk_isAdjoint W then 1 else formparam th) e'",
                    OF fst_dirichlet_body [OF assms]])
  have loop: "fst (fold step [0..<n] s) (e, r) = fst s (e, r) + (if e < n then gain e else 0)"
    for n s
    by (induction n) (auto simp: step less_Suc_eq)
  have "boundaryResidual th W F = fold step [0..<wk_sideinfo_dim0 W] (wk_res W, wk_adjrhs W)"
    by (simp add: boundaryResidual_def step_def Let_def)
  then show ?thesis
    by (simp add: loop gain_def)
qed

lemma boundaryResidual_example_sides:
  "fst (boundaryResidual example_thermal example_workset example_functions) (0, 0) =
     spec_nitsche_term example_thermal example_workset example_functions 7 3 0 0 0"
  "fst (boundaryResidual example_thermal (example_workset\<lparr>wk_sideinfo := (\<lambda>e n s j. 2)\<rparr>)
          example_functions) (0, 0) = - 2"
proof -
  have dim: "1 \<le> spaceDim example_thermal" "spaceDim example_thermal \<le> 3"
    by (simp_all add: example_thermal_vars)
  from boundaryResidual_sum [OF dim, of example_workset example_functions 0 0]
  show "fst (boundaryResidual example_thermal example_workset example_functions) (0, 0) =
     spec_nitsche_term example_thermal example_workset example_functions 7 3 0 0 0"
    by (simp add: example_thermal_vars example_workset_def example_functions_def
        spec_nitsche_term_def side_lambda_def numeral_3_eq_3 Let_def)
  from boundaryResidual_sum [OF dim,
      of "example_workset\<lparr>wk_sideinfo := (\<lambda>e n s j. 2)\<rparr>" example_functions 0 0]
  show "fst (boundaryResidual example_thermal (example_workset\<lparr>wk_sideinfo := (\<lambda>e n s j. 2)\<rparr>)
          example_functions) (0, 0) = - 2"
    by (simp add: example_thermal_vars example_workset_def example_functions_def
        spec_neumann_term_def)
qed

text \<open>
  C3.  On a weak Dirichlet side (kind 1) of the domain boundary, in side set 0, where
  \<open>u = 3\<close>, \<open>\<partial>u/\<partial>n = 2\<close>, \<open>\<phi> = 1\<close>, \<open>\<partial>\<phi>/\<partial>n = 4\<close>, \<open>\<kappa> = 1\<close>, \<open>h = 5\<close>, \<open>s = form_param = 1\<close> and
  the prescribed value is \<open>g = 7\<close>, the symmetric Nitsche form is
  \<open>- 2 - 4 (3 - 7) + 2 (3 - 7) = 6\<close>; \<^verbatim>\<open>boundaryResidual\<close> adds \<open>- 2 - 4 \<cdot> 3 + 2 \<cdot> 3 = - 8\<close>, the
  form with \<open>g = 0\<close>: the second tag entry is not \<open>-1\<close>, so \<^verbatim>\<open>lambda\<close> is the constant
  \<^verbatim>\<open>0.0\<close> and the datum is never looked up.
\<close>

theorem boundaryResidual_dirichlet_value_ignored:
  "wk_sideinfo example_dirichlet_workset 0 (e_num example_thermal)
      (wk_currentside example_dirichlet_workset) 0 = 1 \<and>
   wk_sideinfo example_dirichlet_workset 0 (e_num example_thermal)
      (wk_currentside example_dirichlet_workset) 1 = 0 \<and>
   \<not> wk_isAdjoint example_dirichlet_workset \<and>
   fst (boundaryResidual example_thermal example_dirichlet_workset example_functions) (0, 0)
      = - 8 \<and>
   spec_nitsche_term example_thermal example_dirichlet_workset example_functions 7 3 0 0 0
      = 6 \<and>
   spec_nitsche_term example_thermal example_dirichlet_workset example_functions 0 3 0 0 0
      = - 8"
proof -
  have dim: "1 \<le> spaceDim example_thermal" "spaceDim example_thermal \<le> 3"
    by (simp_all add: example_thermal_vars)
  have tag: "wk_sideinfo example_dirichlet_workset 0 (e_num example_thermal)
      (wk_currentside example_dirichlet_workset) 0 = 1"
    "wk_sideinfo example_dirichlet_workset 0 (e_num example_thermal)
      (wk_currentside example_dirichlet_workset) 1 = 0"
    "\<not> wk_isAdjoint example_dirichlet_workset"
    by (simp_all add: example_dirichlet_workset_def example_workset_def)
  have spec: "spec_nitsche_term example_thermal example_dirichlet_workset example_functions
      7 3 0 0 0 = 6"
    "spec_nitsche_term example_thermal example_dirichlet_workset example_functions
      0 3 0 0 0 = - 8"
    by (simp_all add: spec_nitsche_term_def example_thermal_vars example_dirichlet_workset_def
        example_workset_def example_functions_def numeral_3_eq_3 Let_def)
  from boundaryResidual_sum [OF dim, of example_dirichlet_workset example_functions 0 0]
  have code: "fst (boundaryResidual example_thermal example_dirichlet_workset
      example_functions) (0, 0) = - 8"
    by (simp add: example_thermal_vars example_dirichlet_workset_def example_workset_def
        example_functions_def spec_nitsche_term_def side_lambda_def numeral_3_eq_3 Let_def)
  from tag spec code show ?thesis by simp
qed

section \<open>Properties of the subgrid side information and flux projection\<close>

lemma addsD: "adds F d \<Longrightarrow> F res p = res p + d p"
  unfolding adds_def by blast

lemma addsI: "(\<And>res p. F res p = res p + d p) \<Longrightarrow> adds F d"
  unfolding adds_def by blast

lemma adds_add_to: "adds (\<lambda>res. add_to res e r c) (\<lambda>p. if p = (e, r) then c else 0)"
  by (rule addsI) (simp add: add_to_def)

lemma adds_fold:
  assumes "\<And>x. adds (F x) (d x)"
  shows "adds (fold F xs) (\<lambda>p. \<Sum>x\<leftarrow>xs. d x p)"
proof -
  have "fold F xs res p = res p + (\<Sum>x\<leftarrow>xs. d x p)" for res p
  proof (induction xs arbitrary: res)
    case Nil
    show ?case by simp
  next
    case (Cons x xs)
    from assms [of x] have "F x res p = res p + d x p"
      by (rule addsD)
    with Cons show ?case by (simp add: add.assoc)
  qed
  then show ?thesis by (rule addsI)
qed

lemma adds_project_flux:
  "adds (project_flux cell M macroelemindex fwt s c n)
        (projected_flux cell M macroelemindex fwt s c n)"
  unfolding project_flux_def projected_flux_def
  by (intro adds_fold adds_add_to)

lemma adds_flux_side:
  "adds (flux_side cell M nummacroVars macroelemindex fwt s)
        (side_flux_sum cell M nummacroVars macroelemindex fwt s)"
proof (cases "sc_sideinfo cell (0, 0, s, 1) = - 1")
  case False
  then show ?thesis
    by (intro addsI) (simp add: flux_side_def side_flux_sum_def)
next
  case True
  have inner: "adds (\<lambda>r. if sc_sideinfo cell (c, n, s, 1) = - 1
               then project_flux cell M macroelemindex fwt s c n r else r)
        (\<lambda>p. if sc_sideinfo cell (c, n, s, 1) = - 1
              then projected_flux cell M macroelemindex fwt s c n p else 0)" for c n
    by (rule addsI) (simp add: addsD [OF adds_project_flux])
  have "adds (fold (\<lambda>c. fold (\<lambda>n r.
               if sc_sideinfo cell (c, n, s, 1) = - 1
               then project_flux cell M macroelemindex fwt s c n r
               else r)
             [0..<nummacroVars])
           [0..<sc_numElem cell])
     (\<lambda>p. \<Sum>c\<leftarrow>[0..<sc_numElem cell]. \<Sum>n\<leftarrow>[0..<nummacroVars].
              if sc_sideinfo cell (c, n, s, 1) = - 1
              then projected_flux cell M macroelemindex fwt s c n p else 0)"
    by (intro adds_fold inner)
  with True show ?thesis
    by (intro addsI) (simp add: flux_side_def side_flux_sum_def addsD)
qed

lemma updateFlux_sum:
  "updateFlux cells M nummacroVars macroelemindex fwt p =
     mw_res M p +
       (\<Sum>cell\<leftarrow>cells. \<Sum>s\<leftarrow>[0..<sc_numsides cell].
          side_flux_sum cell M nummacroVars macroelemindex fwt s p)"
proof -
  have "adds (fold (\<lambda>cell. fold (flux_side cell M nummacroVars macroelemindex fwt)
                     [0..<sc_numsides cell]) cells)
     (\<lambda>p. \<Sum>cell\<leftarrow>cells. \<Sum>s\<leftarrow>[0..<sc_numsides cell].
          side_flux_sum cell M nummacroVars macroelemindex fwt s p)"
    by (intro adds_fold adds_flux_side)
  then show ?thesis by (simp add: updateFlux_def addsD)
qed

lemma copy_tag:
  "fold (\<lambda>k s. s((0, i, j, k) := sideinfo (e, i, j, k))) [0..<n] sub (a, i', j', k) =
     (if a = 0 \<and> i' = i \<and> j' = j \<and> k < n then sideinfo (e, i, j, k) else sub (a, i', j', k))"
  by (induction n) (auto simp: less_Suc_eq)

text \<open>The tag written for variable \<open>i\<close> and side \<open>j\<close> of subcell \<open>e\<close>.\<close>

lemma redefine_tag_apply:
  assumes "2 \<le> dim3" "k < dim3"
  shows "redefine_tag sideinfo dim3 e i j sub (a, i', j', k) =
     (if a = 0 \<and> i' = i \<and> j' = j
      then (if sideinfo (e, i, j, 0) = 1
            then (if k = 0 then 4 else if k = 1 then - 1 else sideinfo (e, i, j, k))
            else sideinfo (e, i, j, k))
      else sub (a, i', j', k))"
  using assms by (auto simp: redefine_tag_def copy_tag Let_def)

lemma redefine_sides_apply:
  assumes "2 \<le> dim3" "k < dim3"
  shows "fold (\<lambda>j. redefine_tag sideinfo dim3 e i j) [0..<n] sub (a, i', j', k) =
     (if a = 0 \<and> i' = i \<and> j' < n
      then (if sideinfo (e, i, j', 0) = 1
            then (if k = 0 then 4 else if k = 1 then - 1 else sideinfo (e, i, j', k))
            else sideinfo (e, i, j', k))
      else sub (a, i', j', k))"
  by (induction n) (auto simp: redefine_tag_apply [OF assms] less_Suc_eq)

lemma redefine_vars_apply:
  assumes "2 \<le> dim3" "k < dim3"
  shows "fold (\<lambda>i. fold (\<lambda>j. redefine_tag sideinfo dim3 e i j) [0..<dim2]) [0..<n] sub
           (a, i', j', k) =
     (if a = 0 \<and> i' < n \<and> j' < dim2
      then (if sideinfo (e, i', j', 0) = 1
            then (if k = 0 then 4 else if k = 1 then - 1 else sideinfo (e, i', j', k))
            else sideinfo (e, i', j', k))
      else sub (a, i', j', k))"
  by (induction n) (auto simp: redefine_sides_apply [OF assms] less_Suc_eq)

lemma redefine_sideinfo_apply:
  assumes "2 \<le> dim3" "k < dim3" "i < dim1" "j < dim2"
  shows "redefine_sideinfo sideinfo dim1 dim2 dim3 e (0, i, j, k) =
     (if sideinfo (e, i, j, 0) = 1
      then (if k = 0 then 4 else if k = 1 then - 1 else sideinfo (e, i, j, k))
      else sideinfo (e, i, j, k))"
  using assms by (simp add: redefine_sideinfo_def redefine_vars_apply)

text \<open>
  C10.  With a tag of at least two integers, the side information given to a subgrid cell
  never has kind 1: a macro tag of kind 1 becomes kind 4 with neighbour marker \<open>-1\<close>, and
  every other tag, and the remaining integers of a rewritten tag, are copied.  In
  \<^verbatim>\<open>updateFlux\<close> a side whose marker is not \<open>-1\<close> leaves the macro residual as it is, and
  the macro residual grows exactly by the flux projections of the sides, elements and
  variables whose marker is \<open>-1\<close>.
\<close>

theorem subgrid_sideinfo_and_flux:
  assumes "2 \<le> dim3" "i < dim1" "j < dim2"
  shows "redefine_sideinfo sideinfo dim1 dim2 dim3 e (0, i, j, 0) \<noteq> 1 \<and>
    (sideinfo (e, i, j, 0) = 1 \<longrightarrow>
       redefine_sideinfo sideinfo dim1 dim2 dim3 e (0, i, j, 0) = 4 \<and>
       redefine_sideinfo sideinfo dim1 dim2 dim3 e (0, i, j, 1) = - 1) \<and>
    (sideinfo (e, i, j, 0) \<noteq> 1 \<longrightarrow>
       (\<forall>k<dim3. redefine_sideinfo sideinfo dim1 dim2 dim3 e (0, i, j, k) =
                  sideinfo (e, i, j, k))) \<and>
    (\<forall>k. 2 \<le> k \<and> k < dim3 \<longrightarrow>
       redefine_sideinfo sideinfo dim1 dim2 dim3 e (0, i, j, k) = sideinfo (e, i, j, k)) \<and>
    (sc_sideinfo cell (0, 0, s, 1) \<noteq> - 1 \<longrightarrow>
       flux_side cell M nummacroVars macroelemindex fwt s res = res) \<and>
    updateFlux cells M nummacroVars macroelemindex fwt p =
      mw_res M p +
        (\<Sum>cell\<leftarrow>cells. \<Sum>s\<leftarrow>[0..<sc_numsides cell].
           if sc_sideinfo cell (0, 0, s, 1) = - 1
           then (\<Sum>c\<leftarrow>[0..<sc_numElem cell]. \<Sum>n\<leftarrow>[0..<nummacroVars].
                   if sc_sideinfo cell (c, n, s, 1) = - 1
                   then projected_flux cell M macroelemindex fwt s c n p else 0)
           else 0)"
proof -
  have pos: "0 < dim3" "1 < dim3" using assms(1) by simp_all
  have kind: "redefine_sideinfo sideinfo dim1 dim2 dim3 e (0, i, j, 0) \<noteq> 1"
    using redefine_sideinfo_apply [OF assms(1) pos(1) assms(2,3), of sideinfo e] by simp
  have rewritten: "redefine_sideinfo sideinfo dim1 dim2 dim3 e (0, i, j, 0) = 4 \<and>
       redefine_sideinfo sideinfo dim1 dim2 dim3 e (0, i, j, 1) = - 1"
    if "sideinfo (e, i, j, 0) = 1"
    using that redefine_sideinfo_apply [OF assms(1) pos(1) assms(2,3), of sideinfo e]
      redefine_sideinfo_apply [OF assms(1) pos(2) assms(2,3), of sideinfo e]
    by simp
  have copied: "redefine_sideinfo sideinfo dim1 dim2 dim3 e (0, i, j, k) = sideinfo (e, i, j, k)"
    if "sideinfo (e, i, j, 0) \<noteq> 1 \<or> 2 \<le> k" "k < dim3" for k
    using that redefine_sideinfo_apply [OF assms(1) that(2) assms(2,3), of sideinfo e]
    by auto
  have skip: "flux_side cell M nummacroVars macroelemindex fwt s res = res"
    if "sc_sideinfo cell (0, 0, s, 1) \<noteq> - 1"
    using that by (simp add: flux_side_def)
  have flux: "updateFlux cells M nummacroVars macroelemindex fwt p =
      mw_res M p +
        (\<Sum>cell\<leftarrow>cells. \<Sum>s\<leftarrow>[0..<sc_numsides cell].
           if sc_sideinfo cell (0, 0, s, 1) = - 1
           then (\<Sum>c\<leftarrow>[0..<sc_numElem cell]. \<Sum>n\<leftarrow>[0..<nummacroVars].
                   if sc_sideinfo cell (c, n, s, 1) = - 1
                   then projected_flux cell M macroelemindex fwt s c n p else 0)
           else 0)"
    by (simp add: updateFlux_sum side_flux_sum_def)
  from kind rewritten copied skip flux show ?thesis by blast
qed

theorem subgrid_sideinfo_and_flux_witness:
  "redefine_sideinfo example_sideinfo 1 1 4 0 (0, 0, 0, 0) = 4 \<and>
   redefine_sideinfo example_sideinfo 1 1 4 0 (0, 0, 0, 1) = - 1 \<and>
   redefine_sideinfo example_sideinfo 1 1 4 0 (0, 0, 0, 2) = 9 \<and>
   updateFlux [example_cell] example_macro_workset 1 0 2 (0, 0) = 6 \<and>
   flux_side (example_cell\<lparr>sc_sideinfo := example_sideinfo\<rparr>) example_macro_workset 1 0 2 0
     (\<lambda>p. 0) = (\<lambda>p. 0)"
proof -
  have side: "example_sideinfo (0, 0, 0, 0) = 1" "example_sideinfo (0, 0, 0, 2) = 9"
    "example_sideinfo (0, 0, 0, 1) \<noteq> - 1"
    by (simp_all add: example_sideinfo_def)
  have dims: "(2::nat) \<le> 4" "(0::nat) < 1" by simp_all
  note inst = subgrid_sideinfo_and_flux [OF dims(1) dims(2) dims(2), of example_sideinfo 0
      "example_cell\<lparr>sc_sideinfo := example_sideinfo\<rparr>" 0 example_macro_workset 1 0 2 "\<lambda>p. 0"
      "[example_cell]" "(0, 0)"]
  from inst side have tags:
    "redefine_sideinfo example_sideinfo 1 1 4 0 (0, 0, 0, 0) = 4"
    "redefine_sideinfo example_sideinfo 1 1 4 0 (0, 0, 0, 1) = - 1"
    "redefine_sideinfo example_sideinfo 1 1 4 0 (0, 0, 0, 2) = 9"
    by simp_all
  from inst side have skip:
    "flux_side (example_cell\<lparr>sc_sideinfo := example_sideinfo\<rparr>) example_macro_workset 1 0 2 0
       (\<lambda>p. 0) = (\<lambda>p. 0)"
    by simp
  have cell: "sc_sideinfo example_cell = redefine_sideinfo example_sideinfo 1 1 4 0"
    "sc_numsides example_cell = 1" "sc_numElem example_cell = 1"
    "sc_mortar_dim1 example_cell = (\<lambda>s b. 1)" "sc_mortar_dim2 example_cell = (\<lambda>s b. 1)"
    "sc_mortarbasis example_cell = (\<lambda>s b c j i. 1)" "sc_wts_side example_cell = (\<lambda>s c i. 1)"
    "sc_flux example_cell = (\<lambda>s c n i. 3)"
    by (simp_all add: example_cell_def)
  have macro: "mw_res example_macro_workset = (\<lambda>p. 0)"
    "mw_offsets example_macro_workset = (\<lambda>n j. j)"
    by (simp_all add: example_macro_workset_def)
  from inst [THEN conjunct2, THEN conjunct2, THEN conjunct2, THEN conjunct2, THEN conjunct2]
  have "updateFlux [example_cell] example_macro_workset 1 0 2 (0, 0) = 6"
    by (simp add: cell macro tags [simplified] projected_flux_def)
  with tags skip show ?thesis by simp
qed

section \<open>Properties of the sensitivity assembly\<close>







lemma sum_list_neg: "(\<Sum>x\<leftarrow>xs. - f x) = - (\<Sum>x\<leftarrow>xs. (f x :: real))"
  by (induction xs) simp_all



















end
